theory Spec2Isabelle
  imports Main "HOL-Library.Word"
begin

section \<open>The iRODS standard i/o emulation library (isio.c)\<close>

text \<open>
  A shallow embedding of \<^verbatim>\<open>isio.c\<close>: the per-file cache \<^verbatim>\<open>ISIO_FILE\<close>, the table
  \<^verbatim>\<open>_cacheInfo\<close> of open files, and the functions that read, write, seek, flush and
  close through the cache. The iRODS client library (\<^verbatim>\<open>rcDataObjRead\<close>,
  \<^verbatim>\<open>rcDataObjWrite\<close>, \<^verbatim>\<open>rcDataObjLseek\<close>, ...) and the C allocator are not part of
  the source: they are parameters of the model (the record \<open>rods\<close>), and every call
  of a remote primitive is written to a log so that calls can be counted.
\<close>

subsection \<open>Constants and machine integers\<close>

type_synonym byte = "8 word"
type_synonym size_t = "64 word"

abbreviation (input) ISIO_MAX_OPEN_FILES :: nat where "ISIO_MAX_OPEN_FILES \<equiv> 20"
abbreviation (input) ISIO_INITIAL_BUF_SIZE :: int where "ISIO_INITIAL_BUF_SIZE \<equiv> 65536"
abbreviation (input) ISIO_MAX_BUF_SIZE :: int where "ISIO_MAX_BUF_SIZE \<equiv> 2097152"
abbreviation (input) IRODS_PREFIX :: string where "IRODS_PREFIX \<equiv> ''irods:''"

abbreviation (input) SEEK_SET :: int where "SEEK_SET \<equiv> 0"
abbreviation (input) SEEK_CUR :: int where "SEEK_CUR \<equiv> 1"
abbreviation (input) SEEK_END :: int where "SEEK_END \<equiv> 2"

abbreviation (input) O_RDONLY :: int where "O_RDONLY \<equiv> 0"
abbreviation (input) O_WRONLY :: int where "O_WRONLY \<equiv> 1"
abbreviation (input) O_RDWR :: int where "O_RDWR \<equiv> 2"
abbreviation (input) CAT_NO_ROWS_FOUND :: int where "CAT_NO_ROWS_FOUND \<equiv> - 808000"
abbreviation (input) EOF :: int where "EOF \<equiv> - 1"

text \<open>
  A C \<^verbatim>\<open>int\<close> is 32 bits wide. The values of \<^verbatim>\<open>int\<close> variables are HOL integers;
  \<open>to_int\<close> is the conversion to \<^verbatim>\<open>int\<close> of a wider or unsigned value (two's
  complement wrap-around), written at every place where the source converts or where
  an \<^verbatim>\<open>int\<close> computation can leave the range. \<open>to_size_t\<close> is the conversion of a
  signed value to the 64-bit unsigned \<^verbatim>\<open>size_t\<close> (LP64).
\<close>

definition to_int :: "int \<Rightarrow> int" where
  "to_int x = (x + 2 ^ 31) mod 2 ^ 32 - 2 ^ 31"

definition to_size_t :: "int \<Rightarrow> int" where
  "to_size_t x = x mod 2 ^ 64"

subsection \<open>Memory\<close>

text \<open>
  \<open>Fault\<close> stands for behaviour the source leaves undefined: an access outside a
  block, arithmetic on a NULL pointer, a dereference of NULL, the use of freed memory.
\<close>

datatype fault = Fault

text \<open>
  The memory a \<^verbatim>\<open>char *\<close> points to, with its present contents: a block of the
  allocator owned by the cache, or the buffer of the caller (the bypass read points
  \<^verbatim>\<open>base\<close> at it).
\<close>

datatype region = Cache "byte list" | Caller "byte list"

fun bytes :: "region \<Rightarrow> byte list" where
  "bytes (Cache bs) = bs"
| "bytes (Caller bs) = bs"

fun set_bytes :: "region \<Rightarrow> byte list \<Rightarrow> region" where
  "set_bytes (Cache _) bs = Cache bs"
| "set_bytes (Caller _) bs = Caller bs"

text \<open>
  \<^verbatim>\<open>memcpy(dst + doff, src + soff, n)\<close> with \<open>n\<close> the \<^verbatim>\<open>int\<close> that the source
  passes: a negative \<open>n\<close> converts to a huge \<^verbatim>\<open>size_t\<close>, and a copy that leaves
  either block is undefined.
\<close>

definition memcpy :: "byte list \<Rightarrow> int \<Rightarrow> byte list \<Rightarrow> int \<Rightarrow> int \<Rightarrow> byte list option" where
  "memcpy dst doff src soff n =
     (if 0 \<le> n \<and> 0 \<le> doff \<and> 0 \<le> soff
         \<and> nat doff + nat n \<le> length dst \<and> nat soff + nat n \<le> length src
      then Some (take (nat doff) dst @ take (nat n) (drop (nat soff) src)
                 @ drop (nat doff + nat n) dst)
      else None)"

subsection \<open>The remote session and the allocator\<close>

text \<open>
  The primitives of the iRODS client library, over a state \<open>'r\<close> of the server, and
  the answer of the C allocator to a request of \<open>n\<close> bytes (\<open>False\<close>: it returns
  NULL). \<open>rcDataObjRead\<close> returns its status and the bytes it has put at the start
  of the buffer; \<open>rcDataObjLseek\<close> returns its status and \<^verbatim>\<open>seekResult\<close>, the
  offset it points to or \<open>None\<close> for NULL. \<open>connect\<close> stands for
  \<^verbatim>\<open>getRodsEnv\<close>, \<^verbatim>\<open>rcConnect\<close> and \<^verbatim>\<open>clientLogin\<close> together.
\<close>

record 'r rods =
  connect :: "'r \<Rightarrow> int \<times> 'r"
  parseRodsPathStr :: "string \<Rightarrow> int"
  rcDataObjOpen :: "'r \<Rightarrow> string \<Rightarrow> int \<Rightarrow> int \<times> 'r"
  rcDataObjCreate :: "'r \<Rightarrow> string \<Rightarrow> int \<Rightarrow> int \<times> 'r"
  rcDataObjRead :: "'r \<Rightarrow> int \<Rightarrow> int \<Rightarrow> (int \<times> byte list) \<times> 'r"
  rcDataObjWrite :: "'r \<Rightarrow> int \<Rightarrow> byte list \<Rightarrow> int \<times> 'r"
  rcDataObjLseek :: "'r \<Rightarrow> int \<Rightarrow> int \<Rightarrow> int \<Rightarrow> (int \<times> int option) \<times> 'r"
  rcDataObjClose :: "'r \<Rightarrow> int \<Rightarrow> int \<times> 'r"
  alloc :: "nat \<Rightarrow> bool"

datatype rcall = RcConnect | RcOpen | RcCreate | RcRead int | RcWrite nat
  | RcLseek int int | RcClose

text \<open>The globals: the server behind \<^verbatim>\<open>Comm\<close>, \<^verbatim>\<open>setupFlag\<close>, and the log of remote
  calls, the latest first.\<close>

record 'r world =
  remote :: 'r
  setupFlag :: int
  calls :: "rcall list"

definition remote_read :: "'r rods \<Rightarrow> 'r world \<Rightarrow> int \<Rightarrow> int \<Rightarrow> (int \<times> byte list) \<times> 'r world" where
  "remote_read env w l n =
     (fst (rcDataObjRead env (remote w) l n),
      w\<lparr>remote := snd (rcDataObjRead env (remote w) l n), calls := RcRead n # calls w\<rparr>)"

definition remote_write :: "'r rods \<Rightarrow> 'r world \<Rightarrow> int \<Rightarrow> byte list \<Rightarrow> int \<times> 'r world" where
  "remote_write env w l bs =
     (fst (rcDataObjWrite env (remote w) l bs),
      w\<lparr>remote := snd (rcDataObjWrite env (remote w) l bs),
        calls := RcWrite (length bs) # calls w\<rparr>)"

definition remote_lseek :: "'r rods \<Rightarrow> 'r world \<Rightarrow> int \<Rightarrow> int \<Rightarrow> int \<Rightarrow> (int \<times> int option) \<times> 'r world" where
  "remote_lseek env w l off wh =
     (fst (rcDataObjLseek env (remote w) l off wh),
      w\<lparr>remote := snd (rcDataObjLseek env (remote w) l off wh),
        calls := RcLseek off wh # calls w\<rparr>)"

definition remote_close :: "'r rods \<Rightarrow> 'r world \<Rightarrow> int \<Rightarrow> int \<times> 'r world" where
  "remote_close env w l =
     (fst (rcDataObjClose env (remote w) l),
      w\<lparr>remote := snd (rcDataObjClose env (remote w) l), calls := RcClose # calls w\<rparr>)"

text \<open>
  \<^verbatim>\<open>malloc(n)\<close> and \<^verbatim>\<open>realloc(p, n)\<close>. The bytes of a fresh block are
  indeterminate in C; they are 0 here. \<^verbatim>\<open>realloc\<close> keeps the old contents up to the
  smaller of the two sizes; it is undefined on a pointer that the allocator did not
  return.
\<close>

definition c_malloc :: "'r rods \<Rightarrow> int \<Rightarrow> region option" where
  "c_malloc env n =
     (if 0 < n \<and> alloc env (nat n) then Some (Cache (replicate (nat n) 0)) else None)"

fun c_realloc :: "'r rods \<Rightarrow> region option \<Rightarrow> int \<Rightarrow> fault + region option" where
  "c_realloc env None n = Inr (c_malloc env n)"
| "c_realloc env (Some (Caller bs)) n = Inl Fault"
| "c_realloc env (Some (Cache bs)) n =
     Inr (if 0 < n \<and> alloc env (nat n)
          then Some (Cache (take (nat n) bs @ replicate (nat n - length bs) 0))
          else None)"

subsection \<open>The cache of one open file\<close>

text \<open>
  \<^verbatim>\<open>ISIO_FILE\<close>. \<open>base\<close> is the block that \<^verbatim>\<open>base\<close> points to (\<open>None\<close>: NULL).
  \<open>ptr\<close> is kept as the difference \<^verbatim>\<open>ptr - base\<close>, since the source sets and
  moves \<^verbatim>\<open>ptr\<close> relative to \<^verbatim>\<open>base\<close> only: \<^verbatim>\<open>ptr = base\<close> is \<open>ptr := 0\<close> and
  \<^verbatim>\<open>ptr += n\<close> is \<open>ptr := ptr + n\<close>. Where the source computes with \<^verbatim>\<open>ptr\<close> while
  \<^verbatim>\<open>base\<close> is NULL, the model gives \<open>Fault\<close>. \<open>dirty\<close> is the flag as a truth
  value; the source stores 0 and 1 in it.
\<close>

record ISIO_FILE =
  base_offset :: int
  base :: "region option"
  bufferSize :: int
  ptr :: int
  count :: int
  dirty :: bool
  l1descInx :: int

text \<open>The condition of the assertion that opens every function of the source
  (\<^verbatim>\<open>NDEBUG\<close> is defined, so the assertions are not compiled).\<close>

definition isio_assert :: "ISIO_FILE \<Rightarrow> bool" where
  "isio_assert ifp \<longleftrightarrow> base ifp \<noteq> None \<and> 0 \<le> ptr ifp \<and> ptr ifp + count ifp \<le> bufferSize ifp"

text \<open>\<^verbatim>\<open>new_isio_file\<close>: \<^verbatim>\<open>calloc\<close> of the structure (48 bytes under LP64), then
  \<^verbatim>\<open>malloc\<close> of the buffer; \<open>None\<close> is the result NULL.\<close>

definition new_isio_file :: "'r rods \<Rightarrow> int \<Rightarrow> ISIO_FILE option" where
  "new_isio_file env l =
     (if alloc env 48 then
        (case c_malloc env ISIO_INITIAL_BUF_SIZE of
           None \<Rightarrow> None
         | Some b \<Rightarrow> Some \<lparr>base_offset = 0, base = Some b, bufferSize = ISIO_INITIAL_BUF_SIZE,
                          ptr = 0, count = 0, dirty = False, l1descInx = l\<rparr>)
      else None)"

subsection \<open>isioFlush, isioFileTell, isioFillBuffer\<close>

definition isioFlush :: "'r rods \<Rightarrow> ISIO_FILE \<Rightarrow> 'r world \<Rightarrow> fault + (int \<times> ISIO_FILE \<times> 'r world)" where
  "isioFlush env ifp w =
     (if dirty ifp then
        (case base ifp of
           None \<Rightarrow> Inl Fault
         | Some b \<Rightarrow>
            let len = to_int (ptr ifp + count ifp) in
            if len < 0 \<or> length (bytes b) < nat len then Inl Fault
            else
              let r = remote_write env w (l1descInx ifp) (take (nat len) (bytes b)) in
              Inr (fst r, if 0 \<le> fst r then ifp\<lparr>dirty := False\<rparr> else ifp, snd r))
      else Inr (0, ifp, w))"

definition isioFileTell :: "'r rods \<Rightarrow> ISIO_FILE \<Rightarrow> 'r world \<Rightarrow> fault + (int \<times> 'r world)" where
  "isioFileTell env ifp w =
     (let r = remote_lseek env w (l1descInx ifp) 0 SEEK_CUR in
      case snd (fst r) of
        None \<Rightarrow> Inl Fault
      | Some off \<Rightarrow> Inr (to_int off, snd r))"

definition isioFillBuffer :: "'r rods \<Rightarrow> ISIO_FILE \<Rightarrow> 'r world \<Rightarrow> fault + (int \<times> ISIO_FILE \<times> 'r world)" where
  "isioFillBuffer env ifp w =
     (case base ifp of
        None \<Rightarrow> Inr (- 1, ifp, w)
      | Some b \<Rightarrow>
         if bufferSize ifp \<le> 0 then Inr (- 2, ifp, w)
         else
           (case isioFileTell env ifp w of
              Inl f \<Rightarrow> Inl f
            | Inr (pos, w1) \<Rightarrow>
               let ifp1 = ifp\<lparr>base_offset := pos\<rparr>;
                   r = remote_read env w1 (l1descInx ifp) (bufferSize ifp);
                   status = fst (fst r);
                   got = snd (fst r)
               in if status < 0 then Inr (status, ifp1, snd r)
                  else if length (bytes b) < length got then Inl Fault
                  else Inr (0, ifp1\<lparr>base := Some (set_bytes b (got @ drop (length got) (bytes b))),
                                    ptr := 0, count := status\<rparr>, snd r)))"

subsection \<open>isioFileRead\<close>

text \<open>
  The caller's buffer is a parameter and a result: the bytes it holds before and
  after the call. \<open>read_count\<close> is also the distance of \<^verbatim>\<open>destPtr\<close> from the
  start of the buffer, since the source advances both by the same amount.

  Lines 438 to 466 when the cache buffer is used (\<^verbatim>\<open>usingUsersBuffer == 0\<close>).
\<close>

definition read_fill_cache :: "'r rods \<Rightarrow> ISIO_FILE \<Rightarrow> byte list \<Rightarrow> int \<Rightarrow> int \<Rightarrow> 'r world
    \<Rightarrow> fault + (int \<times> byte list \<times> ISIO_FILE \<times> 'r world)" where
  "read_fill_cache env ifp buffer reqSize read_count w =
     (case isioFillBuffer env ifp w of
        Inl f \<Rightarrow> Inl f
      | Inr (status, ifp1, w1) \<Rightarrow>
         if status < 0 then Inr (status, buffer, ifp1, w1)
         else
           let second_read_count = (if count ifp1 < reqSize then count ifp1 else reqSize) in
           if second_read_count > 0 then
             (case base ifp1 of
                None \<Rightarrow> Inl Fault
              | Some b \<Rightarrow>
                 (case memcpy buffer read_count (bytes b) (ptr ifp1) second_read_count of
                    None \<Rightarrow> Inl Fault
                  | Some buffer' \<Rightarrow>
                     Inr (read_count + second_read_count, buffer',
                          ifp1\<lparr>ptr := ptr ifp1 + second_read_count,
                               count := count ifp1 - second_read_count\<rparr>, w1)))
           else Inr (read_count + second_read_count, buffer, ifp1, w1))"

text \<open>
  Lines 417 to 454 when the refill is larger than \<^verbatim>\<open>ISIO_MAX_BUF_SIZE\<close>: \<^verbatim>\<open>base\<close>
  points into the caller's buffer at \<^verbatim>\<open>destPtr\<close> while \<^verbatim>\<open>isioFillBuffer\<close> runs.
\<close>

definition read_bypass :: "'r rods \<Rightarrow> ISIO_FILE \<Rightarrow> byte list \<Rightarrow> int \<Rightarrow> int \<Rightarrow> 'r world
    \<Rightarrow> fault + (int \<times> byte list \<times> ISIO_FILE \<times> 'r world)" where
  "read_bypass env ifp buffer reqSize read_count w =
     (let saved_base = base ifp;
          saved_bufferSize = bufferSize ifp;
          ifp1 = ifp\<lparr>base := Some (Caller (take (nat reqSize) (drop (nat read_count) buffer))),
                    ptr := 0, bufferSize := reqSize\<rparr>
      in case isioFillBuffer env ifp1 w of
           Inl f \<Rightarrow> Inl f
         | Inr (status, ifp2, w1) \<Rightarrow>
            if status < 0 then Inr (status, buffer, ifp2, w1)
            else
              (case base ifp2 of
                 None \<Rightarrow> Inl Fault
               | Some b \<Rightarrow>
                  let second_read_count = (if count ifp2 < reqSize then count ifp2 else reqSize) in
                  Inr (read_count + second_read_count,
                       take (nat read_count) buffer @ bytes b
                         @ drop (nat read_count + length (bytes b)) buffer,
                       ifp2\<lparr>base := saved_base, bufferSize := saved_bufferSize,
                            ptr := 0, count := 0\<rparr>, w1)))"

text \<open>Lines 397 to 436: the choice of the buffer for the refill.\<close>

definition read_refill :: "'r rods \<Rightarrow> ISIO_FILE \<Rightarrow> byte list \<Rightarrow> int \<Rightarrow> int \<Rightarrow> 'r world
    \<Rightarrow> fault + (int \<times> byte list \<times> ISIO_FILE \<times> 'r world)" where
  "read_refill env ifp0 buffer reqSize read_count w =
     (let newBufSize = to_int (2 * reqSize + 8);
          ifp = (if base ifp0 = None then ifp0\<lparr>bufferSize := 0\<rparr> else ifp0)
      in if newBufSize > bufferSize ifp then
           if newBufSize \<le> ISIO_MAX_BUF_SIZE then
             (case c_realloc env (base ifp) newBufSize of
                Inl f \<Rightarrow> Inl f
              | Inr None \<Rightarrow> Inr (- 99, buffer, ifp\<lparr>base := None\<rparr>, w)
              | Inr (Some b) \<Rightarrow>
                 read_fill_cache env
                   (ifp\<lparr>base := Some b, bufferSize := newBufSize, ptr := 0, count := 0\<rparr>)
                   buffer reqSize read_count w)
           else read_bypass env ifp buffer reqSize read_count w
         else read_fill_cache env (ifp\<lparr>ptr := 0, count := 0\<rparr>) buffer reqSize read_count w)"

definition isioFileRead :: "'r rods \<Rightarrow> ISIO_FILE \<Rightarrow> byte list \<Rightarrow> size_t \<Rightarrow> 'r world
    \<Rightarrow> fault + (int \<times> byte list \<times> ISIO_FILE \<times> 'r world)" where
  "isioFileRead env ifp buffer maxToRead w =
     (if maxToRead = 0 then Inr (0, buffer, ifp, w)
      else
        (case isioFlush env ifp w of
           Inl f \<Rightarrow> Inl f
         | Inr (status, ifp1, w1) \<Rightarrow>
            if status < 0 then Inr (status, buffer, ifp1, w1)
            else
              let reqSize = to_int (uint maxToRead) in
              if count ifp1 > 0 then
                (case base ifp1 of
                   None \<Rightarrow> Inl Fault
                 | Some b \<Rightarrow>
                    if count ifp1 \<ge> reqSize then
                      (case memcpy buffer 0 (bytes b) (ptr ifp1) reqSize of
                         None \<Rightarrow> Inl Fault
                       | Some buffer' \<Rightarrow>
                          Inr (to_int (uint maxToRead), buffer',
                               ifp1\<lparr>ptr := ptr ifp1 + reqSize, count := count ifp1 - reqSize\<rparr>,
                               w1))
                    else
                      (case memcpy buffer 0 (bytes b) (ptr ifp1) (count ifp1) of
                         None \<Rightarrow> Inl Fault
                       | Some buffer' \<Rightarrow>
                          read_refill env (ifp1\<lparr>ptr := 0, count := 0\<rparr>) buffer'
                            (reqSize - count ifp1) (count ifp1) w1))
              else read_refill env ifp1 buffer reqSize 0 w1))"

subsection \<open>isioFileWrite\<close>

text \<open>Lines 595 to 604: the rest of the user data goes to the cache buffer.\<close>

definition write_cache :: "ISIO_FILE \<Rightarrow> byte list \<Rightarrow> int \<Rightarrow> int \<Rightarrow> 'r world
    \<Rightarrow> fault + (int \<times> ISIO_FILE \<times> 'r world)" where
  "write_cache ifp buffer write_count wrtSize w =
     (case base ifp of
        None \<Rightarrow> Inl Fault
      | Some b \<Rightarrow>
         (case memcpy (bytes b) (ptr ifp) buffer write_count wrtSize of
            None \<Rightarrow> Inl Fault
          | Some bs \<Rightarrow>
             Inr (write_count + wrtSize,
                  ifp\<lparr>base := Some (set_bytes b bs), dirty := True, ptr := ptr ifp + wrtSize,
                      count := (if count ifp - wrtSize < 0 then 0 else count ifp - wrtSize)\<rparr>,
                  w)))"

text \<open>
  Lines 557 to 604, after the flush of the full buffer; \<open>write_count\<close> bytes of the
  caller's buffer are in the cache already (\<^verbatim>\<open>srcPtr\<close> is that far into it).
\<close>

definition write_rest :: "'r rods \<Rightarrow> ISIO_FILE \<Rightarrow> byte list \<Rightarrow> int \<Rightarrow> int \<Rightarrow> 'r world
    \<Rightarrow> fault + (int \<times> ISIO_FILE \<times> 'r world)" where
  "write_rest env ifp buffer write_count wrtSize w =
     (if wrtSize > ISIO_MAX_BUF_SIZE then
        (if write_count < 0 \<or> length buffer < nat write_count + nat wrtSize then Inl Fault
         else
           let r = remote_write env w (l1descInx ifp)
                     (take (nat wrtSize) (drop (nat write_count) buffer))
           in if fst r < 0 then Inr (fst r, ifp, snd r)
              else Inr (fst r,
                        ifp\<lparr>base_offset := base_offset ifp + to_int (bufferSize ifp + wrtSize)\<rparr>,
                        snd r))
      else if wrtSize > bufferSize ifp then
        (case c_realloc env (base ifp) (2 * wrtSize + 8) of
           Inl f \<Rightarrow> Inl f
         | Inr None \<Rightarrow> Inr (0, ifp\<lparr>base := None\<rparr>, w)
         | Inr (Some b) \<Rightarrow> write_cache (ifp\<lparr>base := Some b, ptr := 0\<rparr>) buffer write_count wrtSize w)
      else write_cache ifp buffer write_count wrtSize w)"

definition isioFileWrite :: "'r rods \<Rightarrow> ISIO_FILE \<Rightarrow> byte list \<Rightarrow> size_t \<Rightarrow> 'r world
    \<Rightarrow> fault + (int \<times> ISIO_FILE \<times> 'r world)" where
  "isioFileWrite env ifp0 buffer countToWrite w =
     (if countToWrite = 0 then Inr (0, ifp0, w)
      else
        let ifp = ifp0\<lparr>dirty := True\<rparr> in
        (case base ifp of
           None \<Rightarrow> Inl Fault
         | Some b \<Rightarrow>
            let spaceInBuffer = to_int (bufferSize ifp - ptr ifp);
                wrtSize = to_int (if uint countToWrite \<le> to_size_t spaceInBuffer
                                  then uint countToWrite else to_size_t spaceInBuffer)
            in (case memcpy (bytes b) (ptr ifp) buffer 0 wrtSize of
                  None \<Rightarrow> Inl Fault
                | Some bs \<Rightarrow>
                   let ifp1 = ifp\<lparr>base := Some (set_bytes b bs), ptr := ptr ifp + wrtSize,
                                  count := (if count ifp - wrtSize < 0 then 0
                                            else count ifp - wrtSize)\<rparr>
                   in if to_size_t wrtSize = uint countToWrite then Inr (wrtSize, ifp1, w)
                      else
                        (case isioFlush env ifp1 w of
                           Inl f \<Rightarrow> Inl f
                         | Inr (status, ifp2, w1) \<Rightarrow>
                            if status < 0 then Inr (status, ifp2, w1)
                            else write_rest env (ifp2\<lparr>ptr := 0, count := 0\<rparr>) buffer wrtSize
                                   (to_int (to_size_t (uint countToWrite - wrtSize))) w1))))"

subsection \<open>isioFileSeek, isioFileClose, putc and getc\<close>

text \<open>\<open>Some adj\<close> is the result 1 with the adjustment stored in \<^verbatim>\<open>*adj\<close>, \<open>None\<close>
  the result 0. \<^verbatim>\<open>ptr\<close> is \<^verbatim>\<open>base\<close> plus a distance, so it is NULL only when
  \<^verbatim>\<open>base\<close> is.\<close>

definition offset_in_current_buffer :: "ISIO_FILE \<Rightarrow> int \<Rightarrow> int \<Rightarrow> int option" where
  "offset_in_current_buffer ifp offset whence =
     (if base ifp = None \<or> bufferSize ifp \<le> 0 \<or> ptr ifp + count ifp \<le> 0 then None
      else if whence = SEEK_SET then
        (if offset \<ge> 0 \<and> offset \<ge> base_offset ifp
            \<and> offset < (base_offset ifp + ptr ifp) + count ifp
         then Some ((offset - base_offset ifp) - ptr ifp) else None)
      else if whence = SEEK_CUR then
        (if offset > 0 then (if offset \<le> count ifp then Some offset else None)
         else if offset < 0 then (if ptr ifp + offset > 0 then Some offset else None)
         else Some 0)
      else None)"

definition isioFileSeek :: "'r rods \<Rightarrow> ISIO_FILE \<Rightarrow> int \<Rightarrow> int \<Rightarrow> 'r world
    \<Rightarrow> fault + (int \<times> ISIO_FILE \<times> 'r world)" where
  "isioFileSeek env ifp offset whence w =
     (case offset_in_current_buffer ifp offset whence of
        Some adj \<Rightarrow> Inr (0, ifp\<lparr>ptr := ptr ifp + adj, count := to_int (count ifp - adj)\<rparr>, w)
      | None \<Rightarrow>
         (case isioFlush env ifp w of
            Inl f \<Rightarrow> Inl f
          | Inr (st, ifp1, w1) \<Rightarrow>
             if st < 0 then Inr (st, ifp1, w1)
             else
               let r = remote_lseek env w1 (l1descInx ifp1) offset whence;
                   status = fst (fst r)
               in (case isioFileTell env ifp1 (snd r) of
                     Inl f \<Rightarrow> Inl f
                   | Inr (pos, w2) \<Rightarrow>
                      Inr (if status > 0 then 0 else status,
                           ifp1\<lparr>base_offset := to_int (pos - status), ptr := 0, count := 0\<rparr>,
                           w2))))"

text \<open>\<^verbatim>\<open>destroy_isio_file\<close> frees the buffer and the structure; \<^verbatim>\<open>free\<close> is undefined
  on the caller's memory.\<close>

definition destroy_isio_file :: "ISIO_FILE \<Rightarrow> fault + int" where
  "destroy_isio_file ifp = (case base ifp of Some (Caller bs) \<Rightarrow> Inl Fault | _ \<Rightarrow> Inr 0)"

text \<open>The structure in the result is \<open>None\<close> once it has been destroyed.\<close>

definition isioFileClose :: "'r rods \<Rightarrow> ISIO_FILE \<Rightarrow> 'r world
    \<Rightarrow> fault + (int \<times> ISIO_FILE option \<times> 'r world)" where
  "isioFileClose env ifp w =
     (case isioFlush env ifp w of
        Inl f \<Rightarrow> Inl f
      | Inr (status, ifp1, w1) \<Rightarrow>
         if status < 0 then Inr (status, Some ifp1, w1)
         else
           (case destroy_isio_file ifp1 of
              Inl f \<Rightarrow> Inl f
            | Inr d \<Rightarrow> let r = remote_close env w1 (l1descInx ifp1) in Inr (fst r, None, snd r)))"

text \<open>The four bytes of an \<^verbatim>\<open>int\<close> in memory (little-endian) and back.\<close>

definition int_bytes :: "int \<Rightarrow> byte list" where
  "int_bytes x = map (\<lambda>k. word_of_int (x div 256 ^ k)) [0, 1, 2, 3]"

definition bytes_int :: "byte list \<Rightarrow> int" where
  "bytes_int bs = to_int (foldr (\<lambda>b acc. uint b + 256 * acc) (take 4 bs) 0)"

definition isioFilePutc :: "'r rods \<Rightarrow> int \<Rightarrow> ISIO_FILE \<Rightarrow> 'r world
    \<Rightarrow> fault + (int \<times> ISIO_FILE \<times> 'r world)" where
  "isioFilePutc env inchar ifp w = isioFileWrite env ifp (int_bytes inchar) 1 w"

definition isioFileGetc :: "'r rods \<Rightarrow> ISIO_FILE \<Rightarrow> 'r world
    \<Rightarrow> fault + (int \<times> ISIO_FILE \<times> 'r world)" where
  "isioFileGetc env ifp w =
     (case isioFileRead env ifp (int_bytes 0) 1 w of
        Inl f \<Rightarrow> Inl f
      | Inr (status, mychar, ifp1, w1) \<Rightarrow>
         Inr (if status = 0 then EOF else if status < 0 then status else bytes_int mychar,
              ifp1, w1))"

subsection \<open>The table of open files and the stdio surface\<close>

text \<open>
  A slot of \<^verbatim>\<open>_cacheInfo\<close>: NULL, a pointer to a live \<^verbatim>\<open>ISIO_FILE\<close> (the structure
  itself here, since each is referenced from its slot only), or a pointer to a
  structure that \<^verbatim>\<open>destroy_isio_file\<close> has freed. The array has
  \<^verbatim>\<open>ISIO_MAX_OPEN_FILES\<close> slots; it is a function of the index.
\<close>

datatype 'a cptr = NULL | Ptr 'a | Dangling

type_synonym cacheInfo = "nat \<Rightarrow> ISIO_FILE cptr"

definition empty_cacheInfo :: cacheInfo where
  "empty_cacheInfo = (\<lambda>i. NULL)"

text \<open>The loop of \<^verbatim>\<open>add_to_map\<close>, from index \<open>i\<close> on: the first slot that is NULL.\<close>

function find_slot :: "cacheInfo \<Rightarrow> nat \<Rightarrow> nat option" where
  "find_slot tab i =
     (if i < ISIO_MAX_OPEN_FILES
      then (if tab i = NULL then Some i else find_slot tab (Suc i))
      else None)"
  by pat_completeness auto
termination
  by (relation "measure (\<lambda>(tab, i). ISIO_MAX_OPEN_FILES - i)") auto

text \<open>The \<^verbatim>\<open>FILE *\<close> that \<^verbatim>\<open>add_to_map\<close> returns is the index plus one, as an integer;
  0 is NULL.\<close>

definition add_to_map :: "cacheInfo \<Rightarrow> ISIO_FILE option \<Rightarrow> int \<times> cacheInfo" where
  "add_to_map tab ifp =
     (case ifp of
        None \<Rightarrow> (0, tab)
      | Some f \<Rightarrow>
         (case find_slot tab 0 of
            Some i \<Rightarrow> (int i + 1, tab(i := Ptr f))
          | None \<Rightarrow> (0, tab)))"

definition is_in_map :: "cacheInfo \<Rightarrow> int \<Rightarrow> ISIO_FILE cptr" where
  "is_in_map tab idx =
     (let i = to_int (idx - 1) in
      if i \<ge> 0 \<and> i < int ISIO_MAX_OPEN_FILES then tab (nat i) else NULL)"

definition isioSetup :: "'r rods \<Rightarrow> 'r world \<Rightarrow> int \<times> 'r world" where
  "isioSetup env w =
     (if setupFlag w \<noteq> 0 then (0, w)
      else
        let r = connect env (remote w);
            w1 = w\<lparr>remote := snd r, calls := RcConnect # calls w\<rparr>
        in (fst r, if fst r = 0 then w1\<lparr>setupFlag := 1\<rparr> else w1))"

text \<open>The result is \<open>None\<close> where the source returns NULL.\<close>

definition isioFileOpen :: "'r rods \<Rightarrow> string \<Rightarrow> string \<Rightarrow> 'r world \<Rightarrow> ISIO_FILE option \<times> 'r world" where
  "isioFileOpen env filename modes w =
     (let s = isioSetup env w; w1 = snd s in
      if fst s \<noteq> 0 then (None, w1)
      else if \<not> alloc env (length filename + 1) then (None, w1)
      else if parseRodsPathStr env filename < 0 then (None, w1)
      else
        let flags = (if take 1 modes = ''w'' then O_WRONLY else O_RDONLY);
            openFlags = (if take 2 modes = ''r+'' then O_RDWR else flags);
            r = rcDataObjOpen env (remote w1) filename openFlags;
            w2 = w1\<lparr>remote := snd r, calls := RcOpen # calls w1\<rparr>;
            c = rcDataObjCreate env (remote w2) filename openFlags;
            retry = (fst r = CAT_NO_ROWS_FOUND \<and> openFlags = O_WRONLY);
            status = (if retry then fst c else fst r);
            w3 = (if retry then w2\<lparr>remote := snd c, calls := RcCreate # calls w2\<rparr> else w2)
        in if status < 0 then (None, w3) else (new_isio_file env status, w3))"

text \<open>
  The functions of the stdio surface take the integer value \<open>i\<close> of the \<^verbatim>\<open>FILE *\<close>.
  Their result is \<open>None\<close> where the source hands the call to the C library (a local
  file), which is not modelled. A slot that points to a freed structure is used as if
  it were live by the source: a \<open>Fault\<close>.
\<close>

definition irodsfopen :: "'r rods \<Rightarrow> cacheInfo \<Rightarrow> string \<Rightarrow> string \<Rightarrow> 'r world
    \<Rightarrow> (int \<times> cacheInfo \<times> 'r world) option" where
  "irodsfopen env tab filename modes w =
     (if take (length IRODS_PREFIX) filename = IRODS_PREFIX then
        let r = isioFileOpen env (drop (length IRODS_PREFIX) filename) modes w;
            m = add_to_map tab (fst r)
        in Some (fst m, snd m, snd r)
      else None)"

definition slot_of :: "int \<Rightarrow> nat" where
  "slot_of i = nat (to_int (i - 1))"

definition irodsfread :: "'r rods \<Rightarrow> cacheInfo \<Rightarrow> byte list \<Rightarrow> size_t \<Rightarrow> size_t \<Rightarrow> int \<Rightarrow> 'r world
    \<Rightarrow> fault + (size_t \<times> byte list \<times> cacheInfo \<times> 'r world) option" where
  "irodsfread env tab buffer itemsize nitems i w =
     (case is_in_map tab i of
        NULL \<Rightarrow> Inr None
      | Dangling \<Rightarrow> Inl Fault
      | Ptr ifp \<Rightarrow>
         (case isioFileRead env ifp buffer (itemsize * nitems) w of
            Inl f \<Rightarrow> Inl f
          | Inr (status, buffer', ifp', w') \<Rightarrow>
             if itemsize = 0 then Inl Fault
             else Inr (Some (word_of_int status div itemsize, buffer',
                             tab(slot_of i := Ptr ifp'), w'))))"

definition irodsfwrite :: "'r rods \<Rightarrow> cacheInfo \<Rightarrow> byte list \<Rightarrow> size_t \<Rightarrow> size_t \<Rightarrow> int \<Rightarrow> 'r world
    \<Rightarrow> fault + (size_t \<times> cacheInfo \<times> 'r world) option" where
  "irodsfwrite env tab buffer itemsize nitems i w =
     (case is_in_map tab i of
        NULL \<Rightarrow> Inr None
      | Dangling \<Rightarrow> Inl Fault
      | Ptr ifp \<Rightarrow>
         (case isioFileWrite env ifp buffer (itemsize * nitems) w of
            Inl f \<Rightarrow> Inl f
          | Inr (status, ifp', w') \<Rightarrow>
             if itemsize = 0 then Inl Fault
             else Inr (Some (word_of_int status div itemsize,
                             tab(slot_of i := Ptr ifp'), w'))))"

definition irodsfclose :: "'r rods \<Rightarrow> cacheInfo \<Rightarrow> int \<Rightarrow> 'r world
    \<Rightarrow> fault + (int \<times> cacheInfo \<times> 'r world) option" where
  "irodsfclose env tab i w =
     (case is_in_map tab i of
        NULL \<Rightarrow> Inr None
      | Dangling \<Rightarrow> Inl Fault
      | Ptr ifp \<Rightarrow>
         (case isioFileClose env ifp w of
            Inl f \<Rightarrow> Inl f
          | Inr (status, ifp', w') \<Rightarrow>
             Inr (Some (status,
                        tab(slot_of i := (case ifp' of None \<Rightarrow> Dangling | Some f \<Rightarrow> Ptr f)),
                        w'))))"

definition irodsfseek :: "'r rods \<Rightarrow> cacheInfo \<Rightarrow> int \<Rightarrow> int \<Rightarrow> int \<Rightarrow> 'r world
    \<Rightarrow> fault + (int \<times> cacheInfo \<times> 'r world) option" where
  "irodsfseek env tab i offset whence w =
     (case is_in_map tab i of
        NULL \<Rightarrow> Inr None
      | Dangling \<Rightarrow> Inl Fault
      | Ptr ifp \<Rightarrow>
         (case isioFileSeek env ifp offset whence w of
            Inl f \<Rightarrow> Inl f
          | Inr (status, ifp', w') \<Rightarrow> Inr (Some (status, tab(slot_of i := Ptr ifp'), w'))))"

definition irodsftell :: "'r rods \<Rightarrow> cacheInfo \<Rightarrow> int \<Rightarrow> 'r world
    \<Rightarrow> fault + (int \<times> 'r world) option" where
  "irodsftell env tab i w =
     (case is_in_map tab i of
        NULL \<Rightarrow> Inr None
      | Dangling \<Rightarrow> Inl Fault
      | Ptr ifp \<Rightarrow>
         (case isioFileTell env ifp w of
            Inl f \<Rightarrow> Inl f
          | Inr (pos, w') \<Rightarrow> Inr (Some (pos, w'))))"

definition irodsfflush :: "'r rods \<Rightarrow> cacheInfo \<Rightarrow> int \<Rightarrow> 'r world
    \<Rightarrow> fault + (int \<times> cacheInfo \<times> 'r world) option" where
  "irodsfflush env tab i w =
     (case is_in_map tab i of
        NULL \<Rightarrow> Inr None
      | Dangling \<Rightarrow> Inl Fault
      | Ptr ifp \<Rightarrow>
         (case isioFlush env ifp w of
            Inl f \<Rightarrow> Inl f
          | Inr (status, ifp', w') \<Rightarrow> Inr (Some (status, tab(slot_of i := Ptr ifp'), w'))))"

definition irodsfputc :: "'r rods \<Rightarrow> cacheInfo \<Rightarrow> int \<Rightarrow> int \<Rightarrow> 'r world
    \<Rightarrow> fault + (int \<times> cacheInfo \<times> 'r world) option" where
  "irodsfputc env tab inchar i w =
     (case is_in_map tab i of
        NULL \<Rightarrow> Inr None
      | Dangling \<Rightarrow> Inl Fault
      | Ptr ifp \<Rightarrow>
         (case isioFilePutc env inchar ifp w of
            Inl f \<Rightarrow> Inl f
          | Inr (status, ifp', w') \<Rightarrow> Inr (Some (status, tab(slot_of i := Ptr ifp'), w'))))"

definition irodsfgetc :: "'r rods \<Rightarrow> cacheInfo \<Rightarrow> int \<Rightarrow> 'r world
    \<Rightarrow> fault + (int \<times> cacheInfo \<times> 'r world) option" where
  "irodsfgetc env tab i w =
     (case is_in_map tab i of
        NULL \<Rightarrow> Inr None
      | Dangling \<Rightarrow> Inl Fault
      | Ptr ifp \<Rightarrow>
         (case isioFileGetc env ifp w of
            Inl f \<Rightarrow> Inl f
          | Inr (status, ifp', w') \<Rightarrow> Inr (Some (status, tab(slot_of i := Ptr ifp'), w'))))"

subsection \<open>A reference server\<close>

text \<open>
  One remote object with a position, behaving as the contract of the client library
  describes: a write stores the bytes at the position and advances it, a read returns
  the bytes from the position up to the end of the object, a seek sets the position
  and reports it. It is the server of the closed examples below; with it the
  allocator grants every request.
\<close>

record server =
  content :: "byte list"
  pos :: nat

definition server_write :: "server \<Rightarrow> int \<Rightarrow> byte list \<Rightarrow> int \<times> server" where
  "server_write s l bs =
     (int (length bs),
      s\<lparr>content := take (pos s) (content s) @ replicate (pos s - length (content s)) 0
                   @ bs @ drop (pos s + length bs) (content s),
        pos := pos s + length bs\<rparr>)"

definition server_read :: "server \<Rightarrow> int \<Rightarrow> int \<Rightarrow> (int \<times> byte list) \<times> server" where
  "server_read s l n =
     ((int (length (take (nat n) (drop (pos s) (content s)))),
       take (nat n) (drop (pos s) (content s))),
      s\<lparr>pos := pos s + length (take (nat n) (drop (pos s) (content s)))\<rparr>)"

definition server_lseek :: "server \<Rightarrow> int \<Rightarrow> int \<Rightarrow> int \<Rightarrow> (int \<times> int option) \<times> server" where
  "server_lseek s l off wh =
     (let p = (if wh = SEEK_SET then off
               else if wh = SEEK_CUR then int (pos s) + off
               else int (length (content s)) + off)
      in ((0, Some p), s\<lparr>pos := nat p\<rparr>))"

definition reference :: "server rods" where
  "reference =
     \<lparr>connect = (\<lambda>s. (0, s)),
      parseRodsPathStr = (\<lambda>p. 0),
      rcDataObjOpen = (\<lambda>s p fl. (3, s)),
      rcDataObjCreate = (\<lambda>s p fl. (3, s)),
      rcDataObjRead = server_read,
      rcDataObjWrite = server_write,
      rcDataObjLseek = server_lseek,
      rcDataObjClose = (\<lambda>s l. (0, s)),
      alloc = (\<lambda>n. True)\<rparr>"

definition world0 :: "server world" where
  "world0 = \<lparr>remote = \<lparr>content = [], pos = 0\<rparr>, setupFlag = 0, calls = []\<rparr>"

text \<open>A file as \<^verbatim>\<open>new_isio_file\<close> returns it, on descriptor 3.\<close>

definition fresh :: ISIO_FILE where
  "fresh = \<lparr>base_offset = 0, base = Some (Cache (replicate 65536 0)), bufferSize = 65536,
            ptr = 0, count = 0, dirty = False, l1descInx = 3\<rparr>"

subsection \<open>Scenarios and measures used by the properties\<close>

text \<open>The bounds invariant in the words of the specification: \<open>0 \<le> cursor \<le>
  bufferCapacity\<close> and \<open>cursor + unreadCount \<le> bufferCapacity\<close>.\<close>

definition bounds_invariant :: "ISIO_FILE \<Rightarrow> bool" where
  "bounds_invariant ifp \<longleftrightarrow>
     0 \<le> ptr ifp \<and> ptr ifp \<le> bufferSize ifp \<and> ptr ifp + count ifp \<le> bufferSize ifp"

text \<open>A file whose counters are in range: the bounds invariant, a count that is not
  negative, and a capacity that an \<^verbatim>\<open>int\<close> can hold.\<close>

definition valid :: "ISIO_FILE \<Rightarrow> bool" where
  "valid ifp \<longleftrightarrow> bounds_invariant ifp \<and> 0 \<le> count ifp \<and> bufferSize ifp < 2 ^ 31"

text \<open>The contract of the remote read: it never reports more bytes than were asked for.\<close>

definition read_contract :: "'r rods \<Rightarrow> bool" where
  "read_contract env \<longleftrightarrow> (\<forall>r l k. fst (fst (rcDataObjRead env r l k)) \<le> k)"

text \<open>The number of remote calls made so far.\<close>

definition ncalls :: "'r world \<Rightarrow> nat" where
  "ncalls w = length (calls w)"

text \<open>Write the bytes, seek to offset 0, read as many bytes back into a zeroed buffer.\<close>

definition write_seek_read :: "'r rods \<Rightarrow> ISIO_FILE \<Rightarrow> byte list \<Rightarrow> 'r world
    \<Rightarrow> fault + (int \<times> byte list \<times> ISIO_FILE \<times> 'r world)" where
  "write_seek_read env ifp bs w =
     (case isioFileWrite env ifp bs (of_nat (length bs)) w of
        Inl f \<Rightarrow> Inl f
      | Inr (st1, ifp1, w1) \<Rightarrow>
         (case isioFileSeek env ifp1 0 SEEK_SET w1 of
            Inl f \<Rightarrow> Inl f
          | Inr (st2, ifp2, w2) \<Rightarrow>
             isioFileRead env ifp2 (replicate (length bs) 0) (of_nat (length bs)) w2))"

text \<open>The table whose first \<open>k\<close> slots hold files as \<^verbatim>\<open>new_isio_file\<close> returns them.\<close>

definition filled :: "nat \<Rightarrow> cacheInfo" where
  "filled k = (\<lambda>i. if i < k then Ptr fresh else NULL)"

text \<open>Variants of the reference server: an allocator that refuses every request, a
  remote read that fails, a remote write that fails, and a remote write that reports
  one byte written whatever it was given.\<close>

definition no_memory :: "server rods" where
  "no_memory = reference\<lparr>alloc := (\<lambda>n. False)\<rparr>"

definition read_error :: "server rods" where
  "read_error = reference\<lparr>rcDataObjRead := (\<lambda>s l n. ((- 1, []), s))\<rparr>"

definition write_error :: "server rods" where
  "write_error = reference\<lparr>rcDataObjWrite := (\<lambda>s l bs. (- 2, s))\<rparr>"

definition short_write :: "server rods" where
  "short_write = reference\<lparr>rcDataObjWrite := (\<lambda>s l bs. (1, s))\<rparr>"

text \<open>A remote write that reports one byte written and appends to \<open>content\<close> every
  byte it was handed: \<open>content\<close> is then the record of what was transmitted.\<close>

definition short_recorder :: "server rods" where
  "short_recorder = reference\<lparr>rcDataObjWrite := (\<lambda>s l bs. (1, s\<lparr>content := content s @ bs\<rparr>))\<rparr>"

section \<open>Properties\<close>

subsection \<open>Conversions and evaluation\<close>

lemma to_int_id: "- (2 ^ 31) \<le> x \<Longrightarrow> x < 2 ^ 31 \<Longrightarrow> to_int x = x"
  by (simp add: to_int_def)

lemma to_size_t_id: "0 \<le> x \<Longrightarrow> x < 2 ^ 64 \<Longrightarrow> to_size_t x = x"
  unfolding to_size_t_def by (rule mod_pos_pos_trivial)

lemma uint_size_t_of_nat: "n < 2 ^ 64 \<Longrightarrow> uint (of_nat n :: size_t) = int n"
  by (simp add: uint_nat unat_of_nat)

lemma size_t_of_nat_0: "n < 2 ^ 64 \<Longrightarrow> (of_nat n :: size_t) = 0 \<Longrightarrow> n = 0"
proof -
  assume n: "n < 2 ^ 64" and "(of_nat n :: size_t) = 0"
  then have "uint (of_nat n :: size_t) = 0" by simp
  with n show "n = 0" by (simp add: uint_size_t_of_nat)
qed

lemmas isio_defs = to_int_def to_size_t_def memcpy_def Let_def
  isioFlush_def isioFileTell_def isioFillBuffer_def
  isioFileRead_def read_refill_def read_bypass_def read_fill_cache_def
  isioFileWrite_def write_rest_def write_cache_def
  isioFileSeek_def offset_in_current_buffer_def
  remote_read_def remote_write_def remote_lseek_def remote_close_def

lemmas server_defs = reference_def server_read_def server_write_def server_lseek_def
  fresh_def world0_def

lemma new_isio_file_reference: "new_isio_file reference 3 = Some fresh"
  by (simp add: new_isio_file_def c_malloc_def reference_def fresh_def)

subsection \<open>The bounds invariant\<close>

lemma bounds_invariant_fresh: "bounds_invariant fresh \<and> isio_assert fresh"
  by (simp add: bounds_invariant_def isio_assert_def fresh_def)

text \<open>
  The invariant is kept by \<^verbatim>\<open>isioFlush\<close>, by \<^verbatim>\<open>isioFileSeek\<close>, and by
  \<^verbatim>\<open>isioFileRead\<close> when the remote read keeps its contract. \<^verbatim>\<open>isioFileWrite\<close> keeps
  it on every path but one: the path that grows the buffer for the rest of the data
  and succeeds.
\<close>

lemma isioFlush_bounds:
  "isioFlush env ifp w = Inr (st, ifp', w') \<Longrightarrow> valid ifp \<Longrightarrow> valid ifp' \<and> base ifp' = base ifp"
  by (auto simp: isioFlush_def Let_def valid_def bounds_invariant_def split: if_splits option.splits)

lemma isioFileSeek_bounds:
  assumes "isioFileSeek env ifp offset whence w = Inr (st, ifp', w')" and "valid ifp"
  shows "valid ifp'"
proof (cases "offset_in_current_buffer ifp offset whence")
  case None
  with assms show ?thesis
    by (auto simp: isioFileSeek_def Let_def valid_def bounds_invariant_def
        split: if_splits option.splits sum.splits dest!: isioFlush_bounds [unfolded valid_def bounds_invariant_def])
next
  case (Some adj)
  with assms(2) have a: "0 \<le> ptr ifp + adj" "0 \<le> count ifp - adj" "count ifp - adj \<le> bufferSize ifp"
    by (auto simp: offset_in_current_buffer_def valid_def bounds_invariant_def split: if_splits)
  with assms(2) have "to_int (count ifp - adj) = count ifp - adj"
    by (intro to_int_id) (auto simp: valid_def)
  with assms Some a show ?thesis
    by (auto simp: isioFileSeek_def valid_def bounds_invariant_def)
qed

lemma write_rest_grow:
  assumes "write_rest env ifp buffer wc n w = Inr (st, ifp', w')"
    and "bufferSize ifp < n" and "n \<le> ISIO_MAX_BUF_SIZE" and "base ifp' \<noteq> None"
  shows "bufferSize ifp' = bufferSize ifp \<and> ptr ifp' = n \<and> \<not> bounds_invariant ifp'"
  using assms
  by (auto simp: write_rest_def write_cache_def bounds_invariant_def
      split: if_splits option.splits sum.splits)

lemma write_rest_bounds:
  assumes "write_rest env ifp buffer wc n w = Inr (st, ifp', w')"
    and "ptr ifp = 0" and "count ifp = 0" and "0 \<le> bufferSize ifp" and "bufferSize ifp < 2 ^ 31"
    and "\<not> (bufferSize ifp < n \<and> n \<le> ISIO_MAX_BUF_SIZE)"
  shows "valid ifp'"
  using assms
  by (auto simp: write_rest_def write_cache_def valid_def bounds_invariant_def memcpy_def Let_def
      split: if_splits option.splits sum.splits)

lemma isioFlush_fields:
  "isioFlush env ifp w = Inr (st, ifp', w') \<Longrightarrow>
     ptr ifp' = ptr ifp \<and> count ifp' = count ifp \<and> bufferSize ifp' = bufferSize ifp
     \<and> base ifp' = base ifp \<and> base_offset ifp' = base_offset ifp"
  by (auto simp: isioFlush_def Let_def split: if_splits option.splits)

lemma write_rest_status:
  assumes "write_rest env ifp buffer wc n w = Inr (st, ifp', w')"
    and "bufferSize ifp < n" and "n \<le> ISIO_MAX_BUF_SIZE" and "0 \<le> wc"
  shows "(base ifp' = None \<and> st = 0 \<and> ptr ifp' = ptr ifp \<and> count ifp' = count ifp \<and> bufferSize ifp' = bufferSize ifp) \<or> (base ifp' \<noteq> None \<and> st = wc + n)"
  using assms
  by (auto simp: write_rest_def write_cache_def split: if_splits option.splits sum.splits)

lemma isioFileWrite_bounds:
  assumes res: "isioFileWrite env ifp src m w = Inr (st, ifp', w')"
    and v: "valid ifp" and m: "uint m < 2 ^ 31"
  shows "bounds_invariant ifp' \<longleftrightarrow>
           \<not> (bufferSize ifp < uint m - (bufferSize ifp - ptr ifp)
              \<and> uint m - (bufferSize ifp - ptr ifp) \<le> ISIO_MAX_BUF_SIZE \<and> 0 < st)"
proof (cases "m = 0")
  case True
  with res v show ?thesis
    by (auto simp: isioFileWrite_def valid_def bounds_invariant_def)
next
  case False
  let ?space = "bufferSize ifp - ptr ifp"
  from v have sp: "0 \<le> ?space" "?space < 2 ^ 31"
    by (auto simp: valid_def bounds_invariant_def)
  from v have bs0: "0 \<le> bufferSize ifp" "bufferSize ifp < 2 ^ 31"
    by (auto simp: valid_def bounds_invariant_def)
  from sp have s1: "to_int ?space = ?space" by (simp add: to_int_id)
  from sp have s2: "to_size_t ?space = ?space" by (intro to_size_t_id) simp_all
  have m0: "0 \<le> uint m" by simp
  from False have mpos: "0 < uint m"
    using uint_0_iff [of m] m0 by linarith
  from m m0 have m1: "to_int (uint m) = uint m" by (intro to_int_id) linarith+
  from m m0 have m2: "to_size_t (uint m) = uint m" by (intro to_size_t_id) simp_all
  show ?thesis
  proof (cases "uint m \<le> ?space")
    case True
    with res v False show ?thesis
      by (auto simp: isioFileWrite_def Let_def s1 s2 m1 m2 valid_def bounds_invariant_def
          split: option.splits if_splits)
  next
    case over: False
    let ?r = "uint m - ?space"
    from over sp m have r: "0 < ?r" "?r < 2 ^ 31" by linarith+
    then have r1: "to_int (to_size_t ?r) = ?r"
      by (simp add: to_int_id to_size_t_id)
    from res False over obtain b bs where b: "base ifp = Some b"
      and cp: "memcpy (bytes b) (ptr ifp) src 0 ?space = Some bs"
      by (auto simp: isioFileWrite_def Let_def s1 s2 split: option.splits)
    let ?ifp1 = "ifp\<lparr>dirty := True, base := Some (set_bytes b bs), ptr := ptr ifp + ?space,
                     count := (if count ifp - ?space < 0 then 0 else count ifp - ?space)\<rparr>"
    from over sp have ne: "to_size_t ?space \<noteq> uint m" by (simp add: s2)
    from res False over b cp ne
    have step: "(case isioFlush env ?ifp1 w of
                   Inl f \<Rightarrow> Inl f
                 | Inr (status, ifp2, w1) \<Rightarrow>
                    if status < 0 then Inr (status, ifp2, w1)
                    else write_rest env (ifp2\<lparr>ptr := 0, count := 0\<rparr>) src ?space ?r w1)
                = Inr (st, ifp', w')"
      by (simp add: isioFileWrite_def Let_def s1 s2 r1 cong: if_cong sum.case_cong)
    then obtain fs ifp2 w1 where fl: "isioFlush env ?ifp1 w = Inr (fs, ifp2, w1)"
      by (auto split: sum.splits)
    note ff = isioFlush_fields [OF fl]
    from v have c1: "ptr ifp + ?space = bufferSize ifp"
      "(if count ifp - ?space < 0 then 0 else count ifp - ?space) = 0"
      by (auto simp: valid_def bounds_invariant_def)
    show ?thesis
    proof (cases "fs < 0")
      case True
      with step fl have "st = fs" "ifp' = ifp2" by auto
      with True ff c1 sp bs0 show ?thesis
        by (auto simp: bounds_invariant_def)
    next
      case nf: False
      with step fl have wr: "write_rest env (ifp2\<lparr>ptr := 0, count := 0\<rparr>) src ?space ?r w1
                               = Inr (st, ifp', w')"
        by simp
      have bsz: "bufferSize (ifp2\<lparr>ptr := 0, count := 0\<rparr>) = bufferSize ifp"
        using ff by simp
      show ?thesis
      proof (cases "bufferSize ifp < ?r \<and> ?r \<le> ISIO_MAX_BUF_SIZE")
        case True
        with write_rest_status [OF wr] bsz sp r
        consider "base ifp' = None" "st = 0" "ptr ifp' = 0" "count ifp' = 0" "bufferSize ifp' = bufferSize ifp"
          | "base ifp' \<noteq> None" "st = ?space + ?r"
          by auto
        then show ?thesis
        proof cases
          case 1
          with bs0 show ?thesis by (auto simp: bounds_invariant_def)
        next
          case 2
          with write_rest_grow [OF wr] True bsz r sp show ?thesis by auto
        qed
      next
        case False
        with write_rest_bounds [OF wr] bsz bs0 have "valid ifp'"
          by auto
        with False show ?thesis by (auto simp: valid_def)
      qed
    qed
  qed
qed


lemma isioFillBuffer_bounds:
  assumes "isioFillBuffer env ifp w = Inr (st, ifp', w')" and "read_contract env"
  shows "bufferSize ifp' = bufferSize ifp"
    and "0 \<le> st \<longrightarrow> ptr ifp' = 0 \<and> 0 \<le> count ifp' \<and> count ifp' \<le> bufferSize ifp"
    and "st < 0 \<longrightarrow> ptr ifp' = ptr ifp \<and> count ifp' = count ifp \<and> base ifp' = base ifp"
  using assms
  by (auto simp: isioFillBuffer_def Let_def read_contract_def remote_read_def
      split: if_splits option.splits sum.splits)

lemma read_fill_cache_bounds:
  assumes "read_fill_cache env ifp buffer reqSize rc w = Inr (st, buffer', ifp', w')"
    and "read_contract env" and "ptr ifp = 0" and "count ifp = 0"
    and "0 \<le> bufferSize ifp" and "bufferSize ifp < 2 ^ 31"
  shows "valid ifp'"
proof -
  from assms(1) obtain s ifp1 w1 where f: "isioFillBuffer env ifp w = Inr (s, ifp1, w1)"
    by (auto simp: read_fill_cache_def split: sum.splits)
  note b = isioFillBuffer_bounds [OF f assms(2)]
  show ?thesis
  proof (cases "s < 0")
    case True
    with assms f b show ?thesis
      by (auto simp: read_fill_cache_def valid_def bounds_invariant_def)
  next
    case False
    with assms f b show ?thesis
      by (auto simp: read_fill_cache_def Let_def valid_def bounds_invariant_def
          split: if_splits option.splits)
  qed
qed

lemma read_bypass_bounds:
  assumes "read_bypass env ifp buffer reqSize rc w = Inr (st, buffer', ifp', w')"
    and "read_contract env" and "count ifp = 0"
    and "0 \<le> bufferSize ifp" and "bufferSize ifp < 2 ^ 31" and "0 < reqSize" and "reqSize < 2 ^ 31"
  shows "valid ifp'"
proof -
  let ?ifp1 = "ifp\<lparr>base := Some (Caller (take (nat reqSize) (drop (nat rc) buffer))),
                    ptr := 0, bufferSize := reqSize\<rparr>"
  from assms(1) obtain s ifp2 w1 where f: "isioFillBuffer env ?ifp1 w = Inr (s, ifp2, w1)"
    by (auto simp: read_bypass_def Let_def split: sum.splits)
  note b = isioFillBuffer_bounds [OF f assms(2)]
  show ?thesis
  proof (cases "s < 0")
    case True
    with assms f b show ?thesis
      by (auto simp: read_bypass_def Let_def valid_def bounds_invariant_def)
  next
    case False
    with assms f b show ?thesis
      by (auto simp: read_bypass_def Let_def valid_def bounds_invariant_def
          split: if_splits option.splits)
  qed
qed

lemma read_refill_bounds:
  assumes "read_refill env ifp buffer reqSize rc w = Inr (st, buffer', ifp', w')"
    and "read_contract env" and "valid ifp" and "count ifp = 0" and "base ifp \<noteq> None"
    and "0 < reqSize" and "reqSize < 2 ^ 29"
  shows "valid ifp'"
proof -
  from assms(6,7) have nb: "to_int (2 * reqSize + 8) = 2 * reqSize + 8"
    by (intro to_int_id) simp_all
  from assms(3) have bs: "0 \<le> bufferSize ifp" "bufferSize ifp < 2 ^ 31"
    by (auto simp: valid_def bounds_invariant_def)
  show ?thesis
  proof (cases "bufferSize ifp < 2 * reqSize + 8")
    case False
    with assms nb bs show ?thesis
      by (auto simp: read_refill_def Let_def
          intro!: read_fill_cache_bounds [of env _ buffer reqSize rc w st buffer' ifp' w'])
  next
    case grow: True
    show ?thesis
    proof (cases "2 * reqSize + 8 \<le> ISIO_MAX_BUF_SIZE")
      case False
      with assms nb grow bs show ?thesis
        by (auto simp: read_refill_def Let_def
            intro!: read_bypass_bounds [of env _ buffer reqSize rc w st buffer' ifp' w'])
    next
      case True
      with assms nb grow show ?thesis
        by (auto simp: read_refill_def Let_def valid_def bounds_invariant_def
            split: sum.splits option.splits
            dest!: read_fill_cache_bounds [unfolded valid_def bounds_invariant_def])
    qed
  qed
qed

lemma isioFileRead_bounds:
  assumes res: "isioFileRead env ifp buffer n w = Inr (st, buffer', ifp', w')"
    and v: "valid ifp" and b: "base ifp \<noteq> None"
    and c: "read_contract env" and n: "uint n < 2 ^ 29"
  shows "valid ifp'"
proof (cases "n = 0")
  case True
  with res v show ?thesis by (simp add: isioFileRead_def)
next
  case False
  have n0: "0 \<le> uint n" by simp
  with False have npos: "0 < uint n" using uint_0_iff [of n] by linarith
  have "- (2 ^ 31) \<le> (0::int)" by simp
  from this n0 have "- (2 ^ 31) \<le> uint n" by (rule order_trans)
  moreover from n have "uint n < 2 ^ 31" by simp
  ultimately have tn: "to_int (uint n) = uint n" by (rule to_int_id)
  from res False obtain fs ifp1 w1 where fl: "isioFlush env ifp w = Inr (fs, ifp1, w1)"
    by (auto simp: isioFileRead_def split: sum.splits)
  from isioFlush_bounds [OF fl v] have v1: "valid ifp1" and b1: "base ifp1 = base ifp" by auto
  show ?thesis
  proof (cases "fs < 0")
    case True
    with res False fl v1 show ?thesis by (auto simp: isioFileRead_def)
  next
    case nf: False
    from v1 have bs: "0 \<le> bufferSize ifp1" "bufferSize ifp1 < 2 ^ 31" "0 \<le> count ifp1"
      "count ifp1 \<le> bufferSize ifp1"
      by (auto simp: valid_def bounds_invariant_def)
    show ?thesis
    proof (cases "0 < count ifp1")
      case False
      with bs have "count ifp1 = 0" by simp
      with res \<open>n \<noteq> 0\<close> fl nf False tn
      have "read_refill env ifp1 buffer (uint n) 0 w1 = Inr (st, buffer', ifp', w')"
        by (simp add: isioFileRead_def Let_def)
      then show ?thesis
        using read_refill_bounds [of env ifp1 buffer "uint n" 0 w1 st buffer' ifp' w']
          c b b1 v1 npos n \<open>count ifp1 = 0\<close>
        by simp
    next
      case True
      show ?thesis
      proof (cases "uint n \<le> count ifp1")
        case True
        with res \<open>n \<noteq> 0\<close> fl nf \<open>0 < count ifp1\<close> tn v1 npos show ?thesis
          by (auto simp: isioFileRead_def Let_def valid_def bounds_invariant_def
              split: option.splits)
      next
        case False
        with res \<open>n \<noteq> 0\<close> fl nf \<open>0 < count ifp1\<close> tn
        obtain bf where "read_refill env (ifp1\<lparr>ptr := 0, count := 0\<rparr>) bf
                            (uint n - count ifp1) (count ifp1) w1 = Inr (st, buffer', ifp', w')"
          by (auto simp: isioFileRead_def Let_def split: option.splits)
        moreover from v1 have "valid (ifp1\<lparr>ptr := 0, count := 0\<rparr>)"
          by (auto simp: valid_def bounds_invariant_def)
        ultimately show ?thesis
          using read_refill_bounds [of env "ifp1\<lparr>ptr := 0, count := 0\<rparr>" bf
              "uint n - count ifp1" "count ifp1" w1 st buffer' ifp' w']
            c b b1 bs n False
          by simp
      qed
    qed
  qed
qed

text \<open>
  C1. The bounds invariant is claimed to hold after every operation, in particular
  after a write that takes the buffer-grow path of \<^verbatim>\<open>isioFileWrite\<close>. The source
  reallocates the buffer there and does not update \<^verbatim>\<open>bufferSize\<close>: a write of 200000
  bytes to a new file puts 65536 bytes into the buffer, flushes them, grows the block
  for the remaining 134464 bytes and returns with \<^verbatim>\<open>ptr - base\<close> = 134464 while
  \<^verbatim>\<open>bufferSize\<close> is still 65536. The invariant, and the assertion of the source,
  hold before the call and fail after it.
\<close>

theorem isioFileWrite_grow_breaks_bounds:
  "bounds_invariant fresh
   \<and> isioFileWrite reference fresh (replicate 200000 1) 200000 world0
       = Inr (200000,
              fresh\<lparr>base := Some (Cache (replicate 134464 1 @ replicate 134472 0)),
                    ptr := 134464, dirty := True\<rparr>,
              world0\<lparr>remote := \<lparr>content = replicate 65536 1, pos = 65536\<rparr>,
                     calls := [RcWrite 65536]\<rparr>)
   \<and> \<not> bounds_invariant
         (fresh\<lparr>base := Some (Cache (replicate 134464 1 @ replicate 134472 0)),
               ptr := 134464, dirty := True\<rparr>)
   \<and> \<not> isio_assert
         (fresh\<lparr>base := Some (Cache (replicate 134464 1 @ replicate 134472 0)),
               ptr := 134464, dirty := True\<rparr>)"
  by (simp add: isio_defs server_defs bounds_invariant_def isio_assert_def)

subsection \<open>Write, seek to 0, read\<close>

lemma isioFileWrite_fits:
  assumes "bs \<noteq> []" and "length bs \<le> 65536"
  shows "isioFileWrite reference fresh bs (of_nat (length bs)) world0
    = Inr (int (length bs),
           fresh\<lparr>base := Some (Cache (bs @ replicate (65536 - length bs) 0)),
                 ptr := int (length bs), dirty := True\<rparr>, world0)"
proof -
  have n: "length bs < 2 ^ 64" using assms(2) by simp
  have u: "uint (of_nat (length bs) :: size_t) = int (length bs)"
    using n by (rule uint_size_t_of_nat)
  have z: "(of_nat (length bs) :: size_t) \<noteq> 0"
    using assms(1) n size_t_of_nat_0 [of "length bs"] by auto
  have t: "to_int (int (length bs)) = int (length bs)"
    using assms(2) by (simp add: to_int_id)
  have s: "to_size_t (int (length bs)) = int (length bs)"
    using assms(2) by (simp add: to_size_t_id)
  show ?thesis
    using assms z
    by (simp add: isioFileWrite_def fresh_def Let_def u t s to_int_id to_size_t_id memcpy_def)
qed

lemma isioFileSeek_back:
  assumes "bs \<noteq> []" and "length bs \<le> 65536"
  shows "isioFileSeek reference
           (fresh\<lparr>base := Some (Cache (bs @ replicate (65536 - length bs) 0)),
                  ptr := int (length bs), dirty := True\<rparr>) 0 SEEK_SET world0
    = Inr (0, fresh\<lparr>base := Some (Cache (bs @ replicate (65536 - length bs) 0)),
                    ptr := 0, count := int (length bs), dirty := True\<rparr>, world0)"
  using assms
  by (simp add: isioFileSeek_def offset_in_current_buffer_def fresh_def to_int_id)

lemma isioFileRead_back:
  assumes "bs \<noteq> []" and "length bs \<le> 65536"
  shows "isioFileRead reference
           (fresh\<lparr>base := Some (Cache (bs @ replicate (65536 - length bs) 0)),
                  ptr := 0, count := int (length bs), dirty := True\<rparr>)
           (replicate (length bs) 0) (of_nat (length bs)) world0
    = Inr (int (length bs), bs,
           fresh\<lparr>base := Some (Cache (bs @ replicate (65536 - length bs) 0)),
                 ptr := int (length bs), count := 0, dirty := False\<rparr>,
           world0\<lparr>remote := \<lparr>content = bs, pos = length bs\<rparr>, calls := [RcWrite (length bs)]\<rparr>)"
proof -
  have n: "length bs < 2 ^ 64" using assms(2) by simp
  have u: "uint (of_nat (length bs) :: size_t) = int (length bs)"
    using n by (rule uint_size_t_of_nat)
  have z: "(of_nat (length bs) :: size_t) \<noteq> 0"
    using assms(1) n size_t_of_nat_0 [of "length bs"] by auto
  have t: "to_int (int (length bs)) = int (length bs)"
    using assms(2) by (simp add: to_int_id)
  show ?thesis
    using assms z
    by (simp add: isioFileRead_def isioFlush_def remote_write_def reference_def server_write_def
        fresh_def world0_def Let_def u t memcpy_def)
qed

text \<open>
  C2. Writing N bytes at offset 0 of a new file, seeking to 0 and reading N bytes is
  claimed to return the N bytes for N = 1, 65536, 65537 and 2097153. In the source a
  write that overflows the buffer flushes it and starts the buffer again without
  moving \<^verbatim>\<open>base_offset\<close>, so the seek to 0 is taken to be inside the buffer. For the
  65537 bytes 7, ..., 7, 9 the read returns 1 byte, the last one; for the 2097153
  bytes 7, ..., 7, 9 it returns 2031617 bytes, those from offset 65536 on. (The
  server holds the right contents in both cases.)
\<close>

theorem write_seek_read_overflow_returns_tail:
  "write_seek_read reference fresh (replicate 65536 7 @ [9]) world0
     = Inr (1, 9 # replicate 65536 0,
            fresh\<lparr>base_offset := 65537,
                  base := Some (Cache (9 # replicate 65535 7 @ replicate 65544 0)),
                  bufferSize := 131080\<rparr>,
            world0\<lparr>remote := \<lparr>content = replicate 65536 7 @ [9], pos = 65537\<rparr>,
                   calls := [RcRead 131080, RcLseek 0 1, RcWrite 1, RcWrite 65536]\<rparr>)
   \<and> write_seek_read reference fresh (replicate 2097152 7 @ [9]) world0
     = Inr (2031617, replicate 2031616 7 @ 9 # replicate 65536 0,
            fresh\<lparr>base_offset := 2097153, base := Some (Cache (replicate 131080 7)),
                  bufferSize := 131080\<rparr>,
            world0\<lparr>remote := \<lparr>content = replicate 65536 7 @ replicate 2031616 7 @ [9],
                               pos = 2097153\<rparr>,
                   calls := [RcRead 131080, RcLseek 0 1, RcWrite 2031617, RcWrite 65536]\<rparr>)"
  by (simp add: write_seek_read_def isio_defs server_defs)

subsection \<open>Remote calls\<close>

lemma ncalls_remote_write: "ncalls (snd (remote_write env w l bs)) = Suc (ncalls w)"
  by (simp add: remote_write_def ncalls_def)

lemma ncalls_remote_read: "ncalls (snd (remote_read env w l n)) = Suc (ncalls w)"
  by (simp add: remote_read_def ncalls_def)

lemma ncalls_remote_lseek: "ncalls (snd (remote_lseek env w l off wh)) = Suc (ncalls w)"
  by (simp add: remote_lseek_def ncalls_def)

lemma isioFlush_clean: "\<not> dirty ifp \<Longrightarrow> isioFlush env ifp w = Inr (0, ifp, w)"
  by (simp add: isioFlush_def)

lemma isioFlush_calls:
  assumes "isioFlush env ifp w = Inr (st, ifp', w')"
  shows "ncalls w' = ncalls w + (if dirty ifp then 1 else 0) \<and> count ifp' = count ifp"
  using assms
  by (auto simp: isioFlush_def Let_def ncalls_remote_write split: if_splits option.splits)

lemma isioFileTell_calls:
  assumes "isioFileTell env ifp w = Inr (p, w')"
  shows "ncalls w' = ncalls w + 1"
  using assms
  by (auto simp: isioFileTell_def Let_def ncalls_remote_lseek split: option.splits)

lemma isioFillBuffer_calls:
  assumes "isioFillBuffer env ifp w = Inr (st, ifp', w')"
  shows "ncalls w' \<le> ncalls w + 2" and "0 \<le> st \<longrightarrow> ncalls w' = ncalls w + 2"
  using assms
  by (auto simp: isioFillBuffer_def Let_def ncalls_remote_read
      split: if_splits option.splits sum.splits dest!: isioFileTell_calls)

lemma read_fill_cache_calls:
  assumes "read_fill_cache env ifp buffer reqSize read_count w = Inr (st, buffer', ifp', w')"
  shows "ncalls w' \<le> ncalls w + 2" and "0 \<le> st \<longrightarrow> ncalls w' = ncalls w + 2"
  using assms
  by (auto simp: read_fill_cache_def Let_def
      split: if_splits option.splits sum.splits dest: isioFillBuffer_calls)

lemma read_bypass_calls:
  assumes "read_bypass env ifp buffer reqSize read_count w = Inr (st, buffer', ifp', w')"
  shows "ncalls w' \<le> ncalls w + 2" and "0 \<le> st \<longrightarrow> ncalls w' = ncalls w + 2"
  using assms
  by (auto simp: read_bypass_def Let_def
      split: if_splits option.splits sum.splits dest: isioFillBuffer_calls)

lemma read_refill_calls:
  assumes "read_refill env ifp buffer reqSize read_count w = Inr (st, buffer', ifp', w')"
  shows "ncalls w' \<le> ncalls w + 2" and "0 \<le> st \<longrightarrow> ncalls w' = ncalls w + 2"
  using assms
  by (auto simp: read_refill_def Let_def
      split: if_splits option.splits sum.splits
      dest: read_fill_cache_calls read_bypass_calls)

lemma isioFileRead_calls:
  assumes "isioFileRead env ifp buffer n w = Inr (st, buffer', ifp', w')"
  shows "ncalls w' \<le> ncalls w + 3"
    and "n \<noteq> 0 \<and> 0 \<le> st \<longrightarrow>
           ncalls w' = ncalls w + (if dirty ifp then 1 else 0)
              + (if 0 < count ifp \<and> to_int (uint n) \<le> count ifp then 0 else 2)"
    and "\<not> dirty ifp \<and> 0 < count ifp \<and> to_int (uint n) \<le> count ifp \<longrightarrow> ncalls w' = ncalls w"
proof -
  show "ncalls w' \<le> ncalls w + 3"
    using assms
    by (auto simp: isioFileRead_def Let_def
        split: if_splits option.splits sum.splits
        dest!: isioFlush_calls read_refill_calls(1))
  show "n \<noteq> 0 \<and> 0 \<le> st \<longrightarrow>
           ncalls w' = ncalls w + (if dirty ifp then 1 else 0)
              + (if 0 < count ifp \<and> to_int (uint n) \<le> count ifp then 0 else 2)"
    using assms
    by (auto simp: isioFileRead_def Let_def
        split: if_splits option.splits sum.splits
        dest!: isioFlush_calls read_refill_calls(2))
  show "\<not> dirty ifp \<and> 0 < count ifp \<and> to_int (uint n) \<le> count ifp \<longrightarrow> ncalls w' = ncalls w"
    using assms
    by (auto simp: isioFileRead_def isioFlush_def Let_def
        split: if_splits option.splits sum.splits)
qed

lemma write_cache_calls:
  assumes "write_cache ifp buffer wc n w = Inr (st, ifp', w')"
  shows "w' = w"
  using assms by (auto simp: write_cache_def split: option.splits)

lemma write_rest_calls:
  assumes "write_rest env ifp buffer wc n w = Inr (st, ifp', w')"
  shows "ncalls w' = ncalls w + (if ISIO_MAX_BUF_SIZE < n then 1 else 0)"
  using assms
  by (auto simp: write_rest_def Let_def ncalls_remote_write
      split: if_splits option.splits sum.splits dest: write_cache_calls)

lemma isioFileWrite_calls:
  assumes "isioFileWrite env ifp src m w = Inr (st, ifp', w')"
  shows "ncalls w' \<le> ncalls w + 2"
    and "0 \<le> bufferSize ifp - ptr ifp \<and> bufferSize ifp - ptr ifp < 2 ^ 31
           \<and> uint m \<le> bufferSize ifp - ptr ifp \<longrightarrow> ncalls w' = ncalls w"
    and "0 \<le> bufferSize ifp - ptr ifp \<and> bufferSize ifp - ptr ifp < 2 ^ 31
           \<and> bufferSize ifp - ptr ifp < uint m \<longrightarrow> ncalls w + 1 \<le> ncalls w'"
proof -
  show "ncalls w' \<le> ncalls w + 2"
    using assms
    by (auto simp: isioFileWrite_def Let_def
        split: if_splits option.splits sum.splits
        dest!: isioFlush_calls write_rest_calls)
  show "0 \<le> bufferSize ifp - ptr ifp \<and> bufferSize ifp - ptr ifp < 2 ^ 31
           \<and> uint m \<le> bufferSize ifp - ptr ifp \<longrightarrow> ncalls w' = ncalls w"
  proof
    assume h: "0 \<le> bufferSize ifp - ptr ifp \<and> bufferSize ifp - ptr ifp < 2 ^ 31
           \<and> uint m \<le> bufferSize ifp - ptr ifp"
    then have s: "to_int (bufferSize ifp - ptr ifp) = bufferSize ifp - ptr ifp"
      by (simp add: to_int_id)
    from h have t: "to_size_t (bufferSize ifp - ptr ifp) = bufferSize ifp - ptr ifp"
      by (intro to_size_t_id) simp_all
    from h have u: "to_int (uint m) = uint m"
      using uint_ge_0 [of m] by (intro to_int_id) linarith+
    have v: "to_size_t (uint m) = uint m"
      using uint_lt2p [of m] by (intro to_size_t_id) simp_all
    show "ncalls w' = ncalls w"
      using assms h
      by (auto simp: isioFileWrite_def Let_def s t u v split: if_splits option.splits)
  qed
  show "0 \<le> bufferSize ifp - ptr ifp \<and> bufferSize ifp - ptr ifp < 2 ^ 31
           \<and> bufferSize ifp - ptr ifp < uint m \<longrightarrow> ncalls w + 1 \<le> ncalls w'"
  proof
    assume h: "0 \<le> bufferSize ifp - ptr ifp \<and> bufferSize ifp - ptr ifp < 2 ^ 31
           \<and> bufferSize ifp - ptr ifp < uint m"
    then have s: "to_int (bufferSize ifp - ptr ifp) = bufferSize ifp - ptr ifp"
      by (simp add: to_int_id)
    from h have t: "to_size_t (bufferSize ifp - ptr ifp) = bufferSize ifp - ptr ifp"
      by (intro to_size_t_id) simp_all
    from h have z: "m \<noteq> 0" by auto
    show "ncalls w + 1 \<le> ncalls w'"
      using assms h z
      by (auto simp: isioFileWrite_def isioFlush_def Let_def s t ncalls_remote_write
          split: if_splits option.splits sum.splits dest!: write_rest_calls)
  qed
qed

lemma isioFileSeek_calls:
  assumes "isioFileSeek env ifp offset whence w = Inr (st, ifp', w')"
  shows "ncalls w' \<le> ncalls w + 3"
    and "offset_in_current_buffer ifp offset whence \<noteq> None \<longrightarrow> ncalls w' = ncalls w"
    and "offset_in_current_buffer ifp offset whence = None \<and> \<not> dirty ifp
           \<longrightarrow> ncalls w' = ncalls w + 2"
proof -
  show "ncalls w' \<le> ncalls w + 3"
    using assms
    by (auto simp: isioFileSeek_def Let_def ncalls_remote_lseek
        split: if_splits option.splits sum.splits
        dest!: isioFlush_calls isioFileTell_calls)
  show "offset_in_current_buffer ifp offset whence \<noteq> None \<longrightarrow> ncalls w' = ncalls w"
    using assms by (auto simp: isioFileSeek_def)
  show "offset_in_current_buffer ifp offset whence = None \<and> \<not> dirty ifp
           \<longrightarrow> ncalls w' = ncalls w + 2"
    using assms
    by (auto simp: isioFileSeek_def isioFlush_clean Let_def ncalls_remote_lseek
        split: if_splits option.splits sum.splits
        dest!: isioFileTell_calls)
qed

lemma isioFileRead_zero_length:
  "isioFileRead env ifp buffer 0 w = Inr (0, buffer, ifp, w)"
  by (simp add: isioFileRead_def)

lemma isioFileWrite_overflow_calls:
  assumes "isioFileWrite env ifp src m w = Inr (st, ifp', w')"
    and "0 \<le> bufferSize ifp - ptr ifp" and "bufferSize ifp - ptr ifp < 2 ^ 31"
    and "bufferSize ifp - ptr ifp < uint m"
  shows "(ncalls w' = ncalls w + 1
            \<and> (to_int (to_size_t (uint m - (bufferSize ifp - ptr ifp))) \<le> ISIO_MAX_BUF_SIZE
                 \<or> st < 0))
         \<or> (ncalls w' = ncalls w + 2
            \<and> ISIO_MAX_BUF_SIZE < to_int (to_size_t (uint m - (bufferSize ifp - ptr ifp))))"
proof -
  from assms(2,3) have s: "to_int (bufferSize ifp - ptr ifp) = bufferSize ifp - ptr ifp"
    by (simp add: to_int_id)
  from assms(2,3) have t: "to_size_t (bufferSize ifp - ptr ifp) = bufferSize ifp - ptr ifp"
    by (intro to_size_t_id) simp_all
  from assms(2,4) have z: "m \<noteq> 0" by auto
  show ?thesis
    using assms z
    by (auto simp: isioFileWrite_def isioFlush_def Let_def s t ncalls_remote_write
        split: if_splits option.splits sum.splits dest!: write_rest_calls)
qed

lemma isioFileSeek_dirty_calls:
  assumes "isioFileSeek env ifp offset whence w = Inr (st, ifp', w')"
    and "offset_in_current_buffer ifp offset whence = None" and "dirty ifp"
  shows "(ncalls w' = ncalls w + 1 \<and> st < 0) \<or> ncalls w' = ncalls w + 3"
  using assms
  by (auto simp: isioFileSeek_def Let_def ncalls_remote_lseek
      split: if_splits option.splits sum.splits
      dest!: isioFlush_calls isioFileTell_calls)

text \<open>
  C3. The claim counts at most one blocking remote call for a read, a write or a seek
  that is not served from memory (two for a write that flushes and then bypasses the
  cache), the position query included. In the source \<^verbatim>\<open>isioFillBuffer\<close> and the
  remote branch of \<^verbatim>\<open>isioFileSeek\<close> call \<^verbatim>\<open>isioFileTell\<close>, a remote call of its own,
  and both \<^verbatim>\<open>isioFileRead\<close> and \<^verbatim>\<open>isioFileSeek\<close> flush a dirty buffer first. What
  holds, for every server and every call that returns:
  \<^item> a read makes at most 3 remote calls; none when the length is 0, and none when the
    file is clean and the cache holds the bytes asked for; a read of a length other
    than 0 that succeeds makes one call if the buffer was dirty, plus two (position
    query and remote read) if the cache did not hold the bytes;
  \<^item> a write makes none when the bytes fit into the buffer; one that does not fit makes
    exactly 1 (the flush) or exactly 2 (the flush and the bypass write): 2 only when
    the rest of the data exceeds \<^verbatim>\<open>ISIO_MAX_BUF_SIZE\<close>, and 1 only when it does not or
    the write returns an error;
  \<^item> a seek makes none when the offset is in the buffer; when it is not, exactly 2
    (remote seek and position query) on a clean file, and on a dirty file exactly 3
    (the flush first), or exactly 1 when the flush fails and the seek returns its
    error.
\<close>

theorem remote_call_counts:
  "(isioFileRead env ifp buffer n w = Inr (rst, buffer', rifp, rw) \<longrightarrow>
      ncalls rw \<le> ncalls w + 3
      \<and> (n = 0 \<longrightarrow> ncalls rw = ncalls w)
      \<and> (\<not> dirty ifp \<and> 0 < count ifp \<and> to_int (uint n) \<le> count ifp \<longrightarrow> ncalls rw = ncalls w)
      \<and> (n \<noteq> 0 \<and> 0 \<le> rst \<longrightarrow>
           ncalls rw = ncalls w + (if dirty ifp then 1 else 0)
              + (if 0 < count ifp \<and> to_int (uint n) \<le> count ifp then 0 else 2)))
   \<and> (isioFileWrite env ifp src m w = Inr (wst, wifp, ww) \<longrightarrow>
      ncalls ww \<le> ncalls w + 2
      \<and> (0 \<le> bufferSize ifp - ptr ifp \<and> bufferSize ifp - ptr ifp < 2 ^ 31
           \<and> uint m \<le> bufferSize ifp - ptr ifp \<longrightarrow> ncalls ww = ncalls w)
      \<and> (0 \<le> bufferSize ifp - ptr ifp \<and> bufferSize ifp - ptr ifp < 2 ^ 31
           \<and> bufferSize ifp - ptr ifp < uint m \<longrightarrow>
           (ncalls ww = ncalls w + 1
              \<and> (to_int (to_size_t (uint m - (bufferSize ifp - ptr ifp))) \<le> ISIO_MAX_BUF_SIZE
                   \<or> wst < 0))
           \<or> (ncalls ww = ncalls w + 2
              \<and> ISIO_MAX_BUF_SIZE < to_int (to_size_t (uint m - (bufferSize ifp - ptr ifp))))))
   \<and> (isioFileSeek env ifp offset whence w = Inr (sst, sifp, sw) \<longrightarrow>
      ncalls sw \<le> ncalls w + 3
      \<and> (offset_in_current_buffer ifp offset whence \<noteq> None \<longrightarrow> ncalls sw = ncalls w)
      \<and> (offset_in_current_buffer ifp offset whence = None \<and> \<not> dirty ifp
           \<longrightarrow> ncalls sw = ncalls w + 2)
      \<and> (offset_in_current_buffer ifp offset whence = None \<and> dirty ifp
           \<longrightarrow> (ncalls sw = ncalls w + 1 \<and> sst < 0) \<or> ncalls sw = ncalls w + 3))"
proof (intro conjI impI)
  assume r: "isioFileRead env ifp buffer n w = Inr (rst, buffer', rifp, rw)"
  show "ncalls rw \<le> ncalls w + 3" using isioFileRead_calls(1) [OF r] .
  show "ncalls rw = ncalls w" if "n = 0"
    using r that by (simp add: isioFileRead_zero_length)
  show "ncalls rw = ncalls w"
    if "\<not> dirty ifp \<and> 0 < count ifp \<and> to_int (uint n) \<le> count ifp"
    using isioFileRead_calls(3) [OF r] that by blast
  show "ncalls rw = ncalls w + (if dirty ifp then 1 else 0)
              + (if 0 < count ifp \<and> to_int (uint n) \<le> count ifp then 0 else 2)"
    if "n \<noteq> 0 \<and> 0 \<le> rst"
    using isioFileRead_calls(2) [OF r] that by blast
next
  assume wr: "isioFileWrite env ifp src m w = Inr (wst, wifp, ww)"
  show "ncalls ww \<le> ncalls w + 2" using isioFileWrite_calls(1) [OF wr] .
  show "ncalls ww = ncalls w"
    if "0 \<le> bufferSize ifp - ptr ifp \<and> bufferSize ifp - ptr ifp < 2 ^ 31
           \<and> uint m \<le> bufferSize ifp - ptr ifp"
    using isioFileWrite_calls(2) [OF wr] that by blast
  show "(ncalls ww = ncalls w + 1
              \<and> (to_int (to_size_t (uint m - (bufferSize ifp - ptr ifp))) \<le> ISIO_MAX_BUF_SIZE
                   \<or> wst < 0))
           \<or> (ncalls ww = ncalls w + 2
              \<and> ISIO_MAX_BUF_SIZE < to_int (to_size_t (uint m - (bufferSize ifp - ptr ifp))))"
    if "0 \<le> bufferSize ifp - ptr ifp \<and> bufferSize ifp - ptr ifp < 2 ^ 31
           \<and> bufferSize ifp - ptr ifp < uint m"
    using isioFileWrite_overflow_calls [OF wr] that by simp
next
  assume sk: "isioFileSeek env ifp offset whence w = Inr (sst, sifp, sw)"
  show "ncalls sw \<le> ncalls w + 3" using isioFileSeek_calls(1) [OF sk] .
  show "ncalls sw = ncalls w" if "offset_in_current_buffer ifp offset whence \<noteq> None"
    using isioFileSeek_calls(2) [OF sk] that by blast
  show "ncalls sw = ncalls w + 2"
    if "offset_in_current_buffer ifp offset whence = None \<and> \<not> dirty ifp"
    using isioFileSeek_calls(3) [OF sk] that by blast
  show "(ncalls sw = ncalls w + 1 \<and> sst < 0) \<or> ncalls sw = ncalls w + 3"
    if "offset_in_current_buffer ifp offset whence = None \<and> dirty ifp"
    using isioFileSeek_dirty_calls [OF sk] that by simp
qed

text \<open>With the reference server. On a new file: a read of one byte (a refill, two
  remote calls), a write of one byte (none), a seek to offset 600 (outside the empty
  buffer, two remote calls), and a write of 2162689 bytes (the flush and the bypass
  write, two remote calls). On a file whose buffer is full and dirty: a read of length
  0 (none), a write of one byte (the flush, one remote call), a seek to offset 70000
  (outside the buffer: the flush, the remote seek and the position query, three
  remote calls).\<close>

theorem remote_call_counts_witness:
  "isioFileRead reference fresh [0] 1 world0
     = Inr (0, [0], fresh, world0\<lparr>calls := [RcRead 65536, RcLseek 0 1]\<rparr>)
   \<and> ncalls (world0\<lparr>calls := [RcRead 65536, RcLseek 0 1]\<rparr>) = ncalls world0 + 2
   \<and> isioFileWrite reference fresh [5] 1 world0
     = Inr (1, fresh\<lparr>base := Some (Cache (5 # replicate 65535 0)), ptr := 1, dirty := True\<rparr>, world0)
   \<and> isioFileSeek reference fresh 600 SEEK_SET world0
     = Inr (0, fresh\<lparr>base_offset := 600\<rparr>,
            world0\<lparr>remote := \<lparr>content = [], pos = 600\<rparr>, calls := [RcLseek 0 1, RcLseek 600 0]\<rparr>)
   \<and> ncalls (world0\<lparr>remote := \<lparr>content = [], pos = 600\<rparr>, calls := [RcLseek 0 1, RcLseek 600 0]\<rparr>)
       = ncalls world0 + 2
   \<and> isioFileWrite reference fresh (replicate 2162689 1) 2162689 world0
     = Inr (2097153,
            fresh\<lparr>base_offset := 2162689, base := Some (Cache (replicate 65536 1))\<rparr>,
            world0\<lparr>remote := \<lparr>content = replicate 65536 1 @ replicate 2097153 1, pos = 2162689\<rparr>,
                   calls := [RcWrite 2097153, RcWrite 65536]\<rparr>)
   \<and> ncalls (world0\<lparr>remote := \<lparr>content = replicate 65536 1 @ replicate 2097153 1, pos = 2162689\<rparr>,
                     calls := [RcWrite 2097153, RcWrite 65536]\<rparr>)
       = ncalls world0 + 2
   \<and> isioFileRead reference (fresh\<lparr>ptr := 65536, dirty := True\<rparr>) [] 0 world0
     = Inr (0, [], fresh\<lparr>ptr := 65536, dirty := True\<rparr>, world0)
   \<and> isioFileWrite reference (fresh\<lparr>ptr := 65536, dirty := True\<rparr>) [5] 1 world0
     = Inr (1, fresh\<lparr>base := Some (Cache (5 # replicate 65535 0)), ptr := 1, dirty := True\<rparr>,
            world0\<lparr>remote := \<lparr>content = replicate 65536 0, pos = 65536\<rparr>,
                   calls := [RcWrite 65536]\<rparr>)
   \<and> ncalls (world0\<lparr>remote := \<lparr>content = replicate 65536 0, pos = 65536\<rparr>,
                     calls := [RcWrite 65536]\<rparr>)
       = ncalls world0 + 1
   \<and> isioFileSeek reference (fresh\<lparr>ptr := 65536, dirty := True\<rparr>) 70000 SEEK_SET world0
     = Inr (0, fresh\<lparr>base_offset := 70000\<rparr>,
            world0\<lparr>remote := \<lparr>content = replicate 65536 0, pos = 70000\<rparr>,
                   calls := [RcLseek 0 1, RcLseek 70000 0, RcWrite 65536]\<rparr>)
   \<and> ncalls (world0\<lparr>remote := \<lparr>content = replicate 65536 0, pos = 70000\<rparr>,
                     calls := [RcLseek 0 1, RcLseek 70000 0, RcWrite 65536]\<rparr>)
       = ncalls world0 + 3"
  using remote_call_counts [of reference fresh "[0]" 1 world0 0 "[0]" fresh
      "world0\<lparr>calls := [RcRead 65536, RcLseek 0 1]\<rparr>"
      "[5]" 1 1 "fresh\<lparr>base := Some (Cache (5 # replicate 65535 0)), ptr := 1, dirty := True\<rparr>" world0
      600 0 0 "fresh\<lparr>base_offset := 600\<rparr>"
      "world0\<lparr>remote := \<lparr>content = [], pos = 600\<rparr>, calls := [RcLseek 0 1, RcLseek 600 0]\<rparr>"]
    remote_call_counts [of reference fresh "[0]" 1 world0 0 "[0]" fresh
      "world0\<lparr>calls := [RcRead 65536, RcLseek 0 1]\<rparr>"
      "replicate 2162689 1" 2162689 2097153
      "fresh\<lparr>base_offset := 2162689, base := Some (Cache (replicate 65536 1))\<rparr>"
      "world0\<lparr>remote := \<lparr>content = replicate 65536 1 @ replicate 2097153 1, pos = 2162689\<rparr>,
              calls := [RcWrite 2097153, RcWrite 65536]\<rparr>"
      600 0 0 "fresh\<lparr>base_offset := 600\<rparr>"
      "world0\<lparr>remote := \<lparr>content = [], pos = 600\<rparr>, calls := [RcLseek 0 1, RcLseek 600 0]\<rparr>"]
    remote_call_counts [of reference "fresh\<lparr>ptr := 65536, dirty := True\<rparr>" "[]" 0 world0 0 "[]"
      "fresh\<lparr>ptr := 65536, dirty := True\<rparr>" world0
      "[5]" 1 1 "fresh\<lparr>base := Some (Cache (5 # replicate 65535 0)), ptr := 1, dirty := True\<rparr>"
      "world0\<lparr>remote := \<lparr>content = replicate 65536 0, pos = 65536\<rparr>, calls := [RcWrite 65536]\<rparr>"
      70000 0 0 "fresh\<lparr>base_offset := 70000\<rparr>"
      "world0\<lparr>remote := \<lparr>content = replicate 65536 0, pos = 70000\<rparr>,
              calls := [RcLseek 0 1, RcLseek 70000 0, RcWrite 65536]\<rparr>"]
  by (simp add: isio_defs server_defs ncalls_def)

text \<open>A read of one byte from a new file: the cache is empty, the refill makes two
  remote calls, the position query and the read.\<close>

theorem refill_read_makes_two_remote_calls:
  "isioFileRead reference fresh [0] 1 world0
     = Inr (0, [0], fresh, world0\<lparr>calls := [RcRead 65536, RcLseek 0 1]\<rparr>)
   \<and> ncalls world0 = 0
   \<and> ncalls (world0\<lparr>calls := [RcRead 65536, RcLseek 0 1]\<rparr>) = 2"
  by (simp add: isio_defs server_defs ncalls_def)


subsection \<open>The bypass write\<close>

text \<open>The bypass branch returns the status of its remote write, whatever was put
  into the buffer before.\<close>

lemma write_rest_bypass_status:
  assumes "write_rest env ifp buffer wc n w = Inr (st, ifp', w')" and "ISIO_MAX_BUF_SIZE < n"
  shows "st = fst (rcDataObjWrite env (remote w) (l1descInx ifp)
                     (take (nat n) (drop (nat wc) buffer)))"
  using assms
  by (auto simp: write_rest_def remote_write_def Let_def split: if_splits)

text \<open>
  C4. A write whose remainder, after the buffer has been filled, exceeds
  \<^verbatim>\<open>ISIO_MAX_BUF_SIZE\<close> is claimed to return the total number of bytes written. The
  source returns the status of the remote write of the remainder. A write of 2162689
  bytes to a new file puts 65536 bytes into the buffer, flushes them, sends the
  remaining 2097153 bytes in one remote write and returns 2097153;
  \<^verbatim>\<open>base_offset\<close> becomes 2162689, the position of the server.
\<close>

theorem isioFileWrite_bypass_returns_remainder:
  "isioFileWrite reference fresh (replicate 2162689 1) 2162689 world0
     = Inr (2097153,
            fresh\<lparr>base_offset := 2162689, base := Some (Cache (replicate 65536 1))\<rparr>,
            world0\<lparr>remote := \<lparr>content = replicate 65536 1 @ replicate 2097153 1, pos = 2162689\<rparr>,
                   calls := [RcWrite 2097153, RcWrite 65536]\<rparr>)"
  by (simp add: isio_defs server_defs)

subsection \<open>Read after write\<close>

text \<open>
  C5. A read on a dirty file is claimed to flush the buffer first, also when the
  requested length is 0, so that bytes just written are read back without a flush by
  the caller. The source returns 0 for the length 0 before it looks at the dirty flag.
  What holds: a read of a length other than 0 on a dirty file is one remote write of
  the bytes from \<^verbatim>\<open>base\<close> up to \<^verbatim>\<open>ptr + count\<close>, then, if that write failed, the
  return of its status with nothing delivered, and otherwise the read on the file with
  the flag cleared; and the bytes of a write that fits into the buffer of a new file
  are returned by a read after a seek to offset 0, when the server holds them too.
\<close>

theorem isioFileRead_flushes_first:
  "(maxToRead \<noteq> 0 \<and> dirty ifp \<and> base ifp = Some b \<and> 0 \<le> ptr ifp + count ifp
      \<and> ptr ifp + count ifp \<le> int (length (bytes b)) \<and> ptr ifp + count ifp < 2 ^ 31
    \<longrightarrow> isioFileRead env ifp buffer maxToRead w =
       (let r = remote_write env w (l1descInx ifp) (take (nat (ptr ifp + count ifp)) (bytes b))
        in if fst r < 0 then Inr (fst r, buffer, ifp, snd r)
           else isioFileRead env (ifp\<lparr>dirty := False\<rparr>) buffer maxToRead (snd r)))
   \<and> (bs \<noteq> [] \<and> length bs \<le> 65536
    \<longrightarrow> write_seek_read reference fresh bs world0 =
         Inr (int (length bs), bs,
           fresh\<lparr>base := Some (Cache (bs @ replicate (65536 - length bs) 0)),
                 ptr := int (length bs), count := 0, dirty := False\<rparr>,
           world0\<lparr>remote := \<lparr>content = bs, pos = length bs\<rparr>, calls := [RcWrite (length bs)]\<rparr>))"
proof (intro conjI impI)
  assume a: "maxToRead \<noteq> 0 \<and> dirty ifp \<and> base ifp = Some b \<and> 0 \<le> ptr ifp + count ifp
      \<and> ptr ifp + count ifp \<le> int (length (bytes b)) \<and> ptr ifp + count ifp < 2 ^ 31"
  then have len: "to_int (ptr ifp + count ifp) = ptr ifp + count ifp"
    by (simp add: to_int_id)
  from a have n: "\<not> length (bytes b) < nat (ptr ifp + count ifp)" by linarith
  show "isioFileRead env ifp buffer maxToRead w =
       (let r = remote_write env w (l1descInx ifp) (take (nat (ptr ifp + count ifp)) (bytes b))
        in if fst r < 0 then Inr (fst r, buffer, ifp, snd r)
           else isioFileRead env (ifp\<lparr>dirty := False\<rparr>) buffer maxToRead (snd r))"
    using a n by (simp add: isioFileRead_def isioFlush_def len Let_def)
next
  assume "bs \<noteq> [] \<and> length bs \<le> 65536"
  then show "write_seek_read reference fresh bs world0 =
         Inr (int (length bs), bs,
           fresh\<lparr>base := Some (Cache (bs @ replicate (65536 - length bs) 0)),
                 ptr := int (length bs), count := 0, dirty := False\<rparr>,
           world0\<lparr>remote := \<lparr>content = bs, pos = length bs\<rparr>, calls := [RcWrite (length bs)]\<rparr>)"
    by (simp add: write_seek_read_def isioFileWrite_fits isioFileSeek_back isioFileRead_back)
qed

text \<open>The file after the byte 7 has been written and the position moved back to 0:
  the read of one byte writes the byte to the server and returns it.\<close>

theorem isioFileRead_flushes_first_witness:
  "isioFileRead reference
      (fresh\<lparr>base := Some (Cache (7 # replicate 65535 0)), count := 1, dirty := True\<rparr>)
      [0] 1 world0
     = Inr (1, [7],
            fresh\<lparr>base := Some (Cache (7 # replicate 65535 0)), ptr := 1\<rparr>,
            world0\<lparr>remote := \<lparr>content = [7], pos = 1\<rparr>, calls := [RcWrite 1]\<rparr>)
   \<and> write_seek_read reference fresh [7] world0
     = Inr (1, [7],
            fresh\<lparr>base := Some (Cache (7 # replicate 65535 0)), ptr := 1\<rparr>,
            world0\<lparr>remote := \<lparr>content = [7], pos = 1\<rparr>, calls := [RcWrite 1]\<rparr>)"
  using isioFileRead_flushes_first [of 1
      "fresh\<lparr>base := Some (Cache (7 # replicate 65535 0)), count := 1, dirty := True\<rparr>"
      "Cache (7 # replicate 65535 0)" reference "[0]" world0 "[7]"]
  by (simp add: write_seek_read_def isio_defs server_defs)

text \<open>A read of length 0 on a dirty file: nothing is sent to the server and the
  flag stays set.\<close>

theorem isioFileRead_zero_length_does_not_flush:
  "isioFileRead reference (fresh\<lparr>ptr := 1, dirty := True\<rparr>) [] 0 world0
     = Inr (0, [], fresh\<lparr>ptr := 1, dirty := True\<rparr>, world0)
   \<and> dirty (fresh\<lparr>ptr := 1, dirty := True\<rparr>)
   \<and> calls world0 = []"
  by (simp add: isioFileRead_def world0_def)

subsection \<open>Allocation failure\<close>

text \<open>
  C6. When the buffer cannot be grown the operation is claimed to return a negative
  error, on the read path and on the write path. With an allocator that refuses, the
  read of 100000 bytes from a new file returns -99; the write of 200000 bytes, which
  has to grow the buffer for the 134464 bytes that remain after the flush, returns 0.
\<close>

theorem isioFileWrite_alloc_failure_returns_zero:
  "isioFileWrite no_memory fresh (replicate 200000 1) 200000 world0
     = Inr (0, fresh\<lparr>base := None\<rparr>,
            world0\<lparr>remote := \<lparr>content = replicate 65536 1, pos = 65536\<rparr>,
                   calls := [RcWrite 65536]\<rparr>)
   \<and> isioFileRead no_memory fresh (replicate 100000 0) 100000 world0
     = Inr (- 99, replicate 100000 0, fresh\<lparr>base := None\<rparr>, world0)"
  by (simp add: no_memory_def isio_defs server_defs)

subsection \<open>The table of open files\<close>

declare find_slot.simps [simp del]

lemma find_slot_None:
  "\<forall>j. i \<le> j \<and> j < 20 \<longrightarrow> tab j \<noteq> NULL \<Longrightarrow> find_slot tab i = None"
proof (induction tab i rule: find_slot.induct)
  case (1 tab i)
  show ?case
  proof (cases "i < 20")
    case True
    with 1 show ?thesis by (subst find_slot.simps) auto
  next
    case False
    then show ?thesis by (subst find_slot.simps) simp
  qed
qed

lemma find_slot_first:
  "i \<le> k \<Longrightarrow> k < 20 \<Longrightarrow> tab k = NULL \<Longrightarrow> \<forall>j. i \<le> j \<and> j < k \<longrightarrow> tab j \<noteq> NULL
     \<Longrightarrow> find_slot tab i = Some k"
proof (induction tab i rule: find_slot.induct)
  case (1 tab i)
  show ?case
  proof (cases "tab i = NULL")
    case True
    with 1 have "i = k" by (metis le_neq_implies_less order_refl)
    with True 1 show ?thesis by (subst find_slot.simps) simp
  next
    case False
    with 1 have "i < k" by (metis le_neq_implies_less)
    with False 1 show ?thesis by (subst find_slot.simps) auto
  qed
qed

lemma add_to_map_full: "\<forall>j < 20. tab j \<noteq> NULL \<Longrightarrow> add_to_map tab ifp = (0, tab)"
  using find_slot_None [of 0 tab]
  by (simp add: add_to_map_def split: option.splits)

lemma add_to_map_filled:
  "k < 20 \<Longrightarrow> add_to_map (filled k) (Some fresh) = (int k + 1, filled (Suc k))"
proof -
  assume k: "k < 20"
  have "(filled k)(k := Ptr fresh) = filled (Suc k)"
    by (auto simp: filled_def fun_eq_iff)
  with k show ?thesis
    using find_slot_first [of 0 k "filled k"]
    by (simp add: add_to_map_def filled_def)
qed

lemma isioFileOpen_reference:
  "isioFileOpen reference name ''r'' w =
     (Some fresh, if setupFlag w \<noteq> 0 then w\<lparr>calls := RcOpen # calls w\<rparr>
                  else w\<lparr>setupFlag := 1, calls := RcOpen # RcConnect # calls w\<rparr>)"
  using new_isio_file_reference
  by (simp add: isioFileOpen_def isioSetup_def Let_def reference_def)

text \<open>Each of the first twenty opens of a remote path takes the next slot: the table
  \<open>filled 20\<close> is the table after twenty opens.\<close>

lemma irodsfopen_fills:
  "k < 20 \<Longrightarrow>
   irodsfopen reference (filled k) (''irods:'' @ name) ''r'' w =
     Some (int k + 1, filled (Suc k),
           if setupFlag w \<noteq> 0 then w\<lparr>calls := RcOpen # calls w\<rparr>
           else w\<lparr>setupFlag := 1, calls := RcOpen # RcConnect # calls w\<rparr>)"
  by (simp add: irodsfopen_def isioFileOpen_reference add_to_map_filled Let_def)

lemma irodsfopen_full:
  "\<forall>j < 20. tab j \<noteq> NULL \<Longrightarrow>
   irodsfopen reference tab (''irods:'' @ name) ''r'' w =
     Some (0, tab,
           if setupFlag w \<noteq> 0 then w\<lparr>calls := RcOpen # calls w\<rparr>
           else w\<lparr>setupFlag := 1, calls := RcOpen # RcConnect # calls w\<rparr>)"
  by (simp add: irodsfopen_def isioFileOpen_reference add_to_map_full Let_def)

text \<open>
  C7. With twenty files open, another open of a remote path is claimed to fail, and
  to succeed once any one of the twenty has been closed. In the source
  \<^verbatim>\<open>irodsfclose\<close> destroys the structure and leaves its pointer in \<^verbatim>\<open>_cacheInfo\<close>;
  no function of the source ever stores NULL in a slot. With the table full, the open
  returns NULL and leaves the table as it is; the close of the first file returns 0;
  the open after it returns NULL again, the slot of the closed file holding the stale
  pointer.
\<close>

theorem irodsfclose_does_not_release_slot:
  "irodsfopen reference (filled 20) ''irods:x'' ''r'' (world0\<lparr>setupFlag := 1\<rparr>)
     = Some (0, filled 20, world0\<lparr>setupFlag := 1, calls := [RcOpen]\<rparr>)
   \<and> irodsfclose reference (filled 20) 1 (world0\<lparr>setupFlag := 1, calls := [RcOpen]\<rparr>)
     = Inr (Some (0, (filled 20)(0 := Dangling),
                  world0\<lparr>setupFlag := 1, calls := [RcClose, RcOpen]\<rparr>))
   \<and> irodsfopen reference ((filled 20)(0 := Dangling)) ''irods:x'' ''r''
        (world0\<lparr>setupFlag := 1, calls := [RcClose, RcOpen]\<rparr>)
     = Some (0, (filled 20)(0 := Dangling),
             world0\<lparr>setupFlag := 1, calls := [RcOpen, RcClose, RcOpen]\<rparr>)"
proof -
  have full: "\<forall>j < 20. filled 20 j \<noteq> NULL" "\<forall>j < 20. ((filled 20)(0 := Dangling)) j \<noteq> NULL"
    by (simp_all add: filled_def)
  have o1: "irodsfopen reference (filled 20) ''irods:x'' ''r'' (world0\<lparr>setupFlag := 1\<rparr>)
     = Some (0, filled 20, world0\<lparr>setupFlag := 1, calls := [RcOpen]\<rparr>)"
    using full(1) irodsfopen_full [of "filled 20" "''x''" "world0\<lparr>setupFlag := 1\<rparr>"]
    by (simp add: world0_def)
  have c: "irodsfclose reference (filled 20) 1 (world0\<lparr>setupFlag := 1, calls := [RcOpen]\<rparr>)
     = Inr (Some (0, (filled 20)(0 := Dangling),
                  world0\<lparr>setupFlag := 1, calls := [RcClose, RcOpen]\<rparr>))"
    by (simp add: irodsfclose_def is_in_map_def slot_of_def to_int_def filled_def
        isioFileClose_def isioFlush_def destroy_isio_file_def remote_close_def
        reference_def fresh_def world0_def)
  have o2: "irodsfopen reference ((filled 20)(0 := Dangling)) ''irods:x'' ''r''
        (world0\<lparr>setupFlag := 1, calls := [RcClose, RcOpen]\<rparr>)
     = Some (0, (filled 20)(0 := Dangling),
             world0\<lparr>setupFlag := 1, calls := [RcOpen, RcClose, RcOpen]\<rparr>)"
    using full(2) irodsfopen_full [of "(filled 20)(0 := Dangling)" "''x''"
        "world0\<lparr>setupFlag := 1, calls := [RcClose, RcOpen]\<rparr>"]
    by (simp add: world0_def)
  from o1 c o2 show ?thesis by simp
qed

subsection \<open>The bypass read\<close>

text \<open>After a bypass read that succeeds, \<^verbatim>\<open>base\<close> and \<^verbatim>\<open>bufferSize\<close> are those
  of the cache again and the buffer is empty; after one that fails, \<^verbatim>\<open>base\<close> is the
  caller's buffer and \<^verbatim>\<open>bufferSize\<close> the size of the request.\<close>

lemma isioFillBuffer_result:
  assumes "isioFillBuffer env ifp w = Inr (st, ifp', w')"
  shows "bufferSize ifp' = bufferSize ifp"
    and "st < 0 \<longrightarrow> base ifp' = base ifp"
    and "0 \<le> st \<longrightarrow> st = 0 \<and> 0 < bufferSize ifp \<and> ptr ifp' = 0 \<and> 0 \<le> count ifp' \<and> base ifp' \<noteq> None"
  using assms
  by (auto simp: isioFillBuffer_def Let_def split: if_splits option.splits sum.splits)

lemma read_bypass_restore:
  assumes "read_bypass env ifp buffer reqSize rc w = Inr (st, buffer', ifp', w')" and "0 \<le> rc"
  shows "0 \<le> st \<longrightarrow> base ifp' = base ifp \<and> bufferSize ifp' = bufferSize ifp
                  \<and> ptr ifp' = 0 \<and> count ifp' = 0"
    and "st < 0 \<longrightarrow> base ifp' = Some (Caller (take (nat reqSize) (drop (nat rc) buffer)))
                  \<and> bufferSize ifp' = reqSize"
proof -
  let ?ifp1 = "ifp\<lparr>base := Some (Caller (take (nat reqSize) (drop (nat rc) buffer))),
                    ptr := 0, bufferSize := reqSize\<rparr>"
  from assms(1) obtain s ifp2 w1 where f: "isioFillBuffer env ?ifp1 w = Inr (s, ifp2, w1)"
    by (auto simp: read_bypass_def Let_def split: sum.splits)
  note r = isioFillBuffer_result [OF f]
  show "0 \<le> st \<longrightarrow> base ifp' = base ifp \<and> bufferSize ifp' = bufferSize ifp
                  \<and> ptr ifp' = 0 \<and> count ifp' = 0"
    using assms(1) f
    by (auto simp: read_bypass_def Let_def split: if_splits option.splits)
  show "st < 0 \<longrightarrow> base ifp' = Some (Caller (take (nat reqSize) (drop (nat rc) buffer)))
                  \<and> bufferSize ifp' = reqSize"
    using assms f r
    by (auto simp: read_bypass_def Let_def split: if_splits option.splits)
qed

text \<open>
  C8. A read whose refill is larger than \<^verbatim>\<open>ISIO_MAX_BUF_SIZE\<close> points \<^verbatim>\<open>base\<close> at
  the caller's buffer for the remote read; the buffer and the capacity of the cache
  are claimed to be restored after it whatever the remote read returns. The source
  returns at once when \<^verbatim>\<open>isioFillBuffer\<close> fails. A read of 2000000 bytes from a new
  file with a remote read that fails returns -1 and leaves \<^verbatim>\<open>base\<close> on the caller's
  buffer with \<^verbatim>\<open>bufferSize\<close> 2000000; with the reference server, which has nothing to
  deliver, the same read returns 0 and the file is as before.
\<close>

theorem isioFileRead_bypass_error_keeps_caller_buffer:
  "isioFileRead read_error fresh (replicate 2000000 0) 2000000 world0
     = Inr (- 1, replicate 2000000 0,
            fresh\<lparr>base := Some (Caller (replicate 2000000 0)), bufferSize := 2000000\<rparr>,
            world0\<lparr>calls := [RcRead 2000000, RcLseek 0 1]\<rparr>)
   \<and> isioFileRead reference fresh (replicate 2000000 0) 2000000 world0
     = Inr (0, replicate 2000000 0, fresh, world0\<lparr>calls := [RcRead 2000000, RcLseek 0 1]\<rparr>)"
  by (simp add: read_error_def isio_defs server_defs)

subsection \<open>Flush\<close>

text \<open>
  C9. \<^verbatim>\<open>isioFlush\<close> on a dirty file sends the bytes from \<^verbatim>\<open>base\<close> up to
  \<^verbatim>\<open>ptr + count\<close> in one remote write and clears the dirty flag whenever the status
  of that write is not negative, whatever the number of bytes the status reports, so
  also when it is smaller than the number of bytes sent; nothing else of the file
  changes, and a flush that follows makes no remote call: \<^verbatim>\<open>isioFlush\<close> makes no
  second attempt for the bytes that the server did not take. The claim adds that
  these bytes are never sent again; they are, with the whole buffer, by the flush
  after a later write (the example after the next one).
\<close>

theorem isioFlush_short_write_clears_dirty:
  assumes "dirty ifp" and "base ifp = Some b"
    and "0 \<le> ptr ifp + count ifp" and "ptr ifp + count ifp \<le> int (length (bytes b))"
    and "ptr ifp + count ifp < 2 ^ 31"
    and "rcDataObjWrite env (remote w) (l1descInx ifp)
           (take (nat (ptr ifp + count ifp)) (bytes b)) = (status, r)"
    and "0 \<le> status"
  shows "isioFlush env ifp w
           = Inr (status, ifp\<lparr>dirty := False\<rparr>,
                  w\<lparr>remote := r, calls := RcWrite (nat (ptr ifp + count ifp)) # calls w\<rparr>)
         \<and> isioFlush env (ifp\<lparr>dirty := False\<rparr>) w' = Inr (0, ifp\<lparr>dirty := False\<rparr>, w')"
proof -
  have len: "to_int (ptr ifp + count ifp) = ptr ifp + count ifp"
    using assms(3,5) by (simp add: to_int_id)
  have n: "nat (ptr ifp + count ifp) \<le> length (bytes b)"
    using assms(3,4) by linarith
  show ?thesis
    using assms(1,2,6,7) n assms(3)
    by (simp add: isioFlush_def len remote_write_def Let_def min_absorb2)
qed

text \<open>Five bytes to flush and a server that reports one byte written: the flag is
  cleared, and the next flush does nothing.\<close>

theorem isioFlush_short_write_clears_dirty_witness:
  "isioFlush short_write (fresh\<lparr>ptr := 5, dirty := True\<rparr>) world0
     = Inr (1, fresh\<lparr>ptr := 5, dirty := False\<rparr>, world0\<lparr>calls := [RcWrite 5]\<rparr>)
   \<and> isioFlush short_write (fresh\<lparr>ptr := 5, dirty := False\<rparr>) (world0\<lparr>calls := [RcWrite 5]\<rparr>)
     = Inr (0, fresh\<lparr>ptr := 5, dirty := False\<rparr>, world0\<lparr>calls := [RcWrite 5]\<rparr>)"
  using isioFlush_short_write_clears_dirty
    [of "fresh\<lparr>ptr := 5, dirty := True\<rparr>" "Cache (replicate 65536 0)" short_write world0 1
        "\<lparr>content = [], pos = 0\<rparr>" "world0\<lparr>calls := [RcWrite 5]\<rparr>"]
  by (simp add: fresh_def short_write_def reference_def world0_def)

text \<open>Five bytes written and flushed to a server that reports one byte written,
  then one more byte written and flushed: the second flush hands the six bytes from
  \<^verbatim>\<open>base\<close> to the server, the four that it did not take among them.\<close>

theorem isioFlush_sends_tail_again_after_write:
  "isioFileWrite short_recorder fresh [1, 2, 3, 4, 5] 5 world0
     = Inr (5, fresh\<lparr>base := Some (Cache ([1, 2, 3, 4, 5] @ replicate 65531 0)),
                    ptr := 5, dirty := True\<rparr>, world0)
   \<and> isioFlush short_recorder
       (fresh\<lparr>base := Some (Cache ([1, 2, 3, 4, 5] @ replicate 65531 0)),
              ptr := 5, dirty := True\<rparr>) world0
     = Inr (1, fresh\<lparr>base := Some (Cache ([1, 2, 3, 4, 5] @ replicate 65531 0)), ptr := 5\<rparr>,
            world0\<lparr>remote := \<lparr>content = [1, 2, 3, 4, 5], pos = 0\<rparr>, calls := [RcWrite 5]\<rparr>)
   \<and> isioFileWrite short_recorder
       (fresh\<lparr>base := Some (Cache ([1, 2, 3, 4, 5] @ replicate 65531 0)), ptr := 5\<rparr>) [6] 1
       (world0\<lparr>remote := \<lparr>content = [1, 2, 3, 4, 5], pos = 0\<rparr>, calls := [RcWrite 5]\<rparr>)
     = Inr (1, fresh\<lparr>base := Some (Cache ([1, 2, 3, 4, 5, 6] @ replicate 65530 0)),
                    ptr := 6, dirty := True\<rparr>,
            world0\<lparr>remote := \<lparr>content = [1, 2, 3, 4, 5], pos = 0\<rparr>, calls := [RcWrite 5]\<rparr>)
   \<and> isioFlush short_recorder
       (fresh\<lparr>base := Some (Cache ([1, 2, 3, 4, 5, 6] @ replicate 65530 0)),
              ptr := 6, dirty := True\<rparr>)
       (world0\<lparr>remote := \<lparr>content = [1, 2, 3, 4, 5], pos = 0\<rparr>, calls := [RcWrite 5]\<rparr>)
     = Inr (1, fresh\<lparr>base := Some (Cache ([1, 2, 3, 4, 5, 6] @ replicate 65530 0)), ptr := 6\<rparr>,
            world0\<lparr>remote := \<lparr>content = [1, 2, 3, 4, 5] @ [1, 2, 3, 4, 5, 6], pos = 0\<rparr>,
                   calls := [RcWrite 6, RcWrite 5]\<rparr>)"
  by (simp add: short_recorder_def isio_defs server_defs)

subsection \<open>Item counts of irodsfread and irodsfwrite\<close>

text \<open>
  C10. When \<^verbatim>\<open>isioFileRead\<close> or \<^verbatim>\<open>isioFileWrite\<close> returns a negative status,
  \<^verbatim>\<open>irodsfread\<close> and \<^verbatim>\<open>irodsfwrite\<close> divide it, converted to \<^verbatim>\<open>size_t\<close>, by
  \<^verbatim>\<open>itemsize\<close>: the caller receives the quotient of \<open>2 ^ 64 + status\<close> by
  \<^verbatim>\<open>itemsize\<close>. The claim says that this is a positive count for every
  \<^verbatim>\<open>itemsize\<close> from 1 on; it is positive exactly for the \<^verbatim>\<open>itemsize\<close> from 1 up
  to \<open>2 ^ 64 + status\<close>, and 0 for a larger one.
\<close>

theorem irods_error_status_item_count:
  assumes "is_in_map tab i = Ptr ifp" and "status < 0" and "- (2 ^ 31) \<le> status"
    and "itemsize \<noteq> 0"
  shows "(isioFileRead env ifp buffer (itemsize * nitems) w = Inr (status, buffer', ifp', w') \<longrightarrow>
            irodsfread env tab buffer itemsize nitems i w
              = Inr (Some (word_of_int status div itemsize, buffer',
                           tab(slot_of i := Ptr ifp'), w')))
       \<and> (isioFileWrite env ifp buffer (itemsize * nitems) w = Inr (status, ifp', w') \<longrightarrow>
            irodsfwrite env tab buffer itemsize nitems i w
              = Inr (Some (word_of_int status div itemsize, tab(slot_of i := Ptr ifp'), w')))
       \<and> uint (word_of_int status div itemsize :: size_t) = (2 ^ 64 + status) div uint itemsize
       \<and> (1 \<le> uint (word_of_int status div itemsize :: size_t)
            \<longleftrightarrow> uint itemsize \<le> 2 ^ 64 + status)"
proof -
  have u: "uint (word_of_int status :: size_t) = 2 ^ 64 + status"
  proof -
    have "status mod 2 ^ 64 = 2 ^ 64 + status"
    proof -
      have "(2 ^ 64 + status) mod 2 ^ 64 = 2 ^ 64 + status"
        using assms(2,3) by (intro mod_pos_pos_trivial) simp_all
      then show ?thesis by simp
    qed
    then show ?thesis by (simp add: uint_word_of_int take_bit_eq_mod)
  qed
  have d: "uint (word_of_int status div itemsize :: size_t) = (2 ^ 64 + status) div uint itemsize"
    by (simp add: uint_div u)
  have pos: "0 < uint itemsize"
  proof -
    have "uint itemsize \<noteq> 0" using assms(4) by (simp add: uint_0_iff)
    moreover have "0 \<le> uint itemsize" by simp
    ultimately show ?thesis by linarith
  qed
  have "1 \<le> (2 ^ 64 + status) div uint itemsize \<longleftrightarrow> uint itemsize \<le> 2 ^ 64 + status"
    using pos pos_imp_zdiv_pos_iff [of "uint itemsize" "2 ^ 64 + status"] by linarith
  with d show ?thesis
    using assms(1,4) by (simp add: irodsfread_def irodsfwrite_def)
qed

text \<open>A full dirty buffer and a server whose write fails with -2: a read and a write
  of one item of size 1 both return the count \<open>2 ^ 64 - 2\<close>.\<close>

theorem irods_error_status_item_count_witness:
  "irodsfread write_error (empty_cacheInfo(0 := Ptr (fresh\<lparr>ptr := 65536, dirty := True\<rparr>)))
       [0] 1 1 1 world0
     = Inr (Some (18446744073709551614, [0],
                  empty_cacheInfo(0 := Ptr (fresh\<lparr>ptr := 65536, dirty := True\<rparr>)),
                  world0\<lparr>calls := [RcWrite 65536]\<rparr>))
   \<and> irodsfwrite write_error (empty_cacheInfo(0 := Ptr (fresh\<lparr>ptr := 65536, dirty := True\<rparr>)))
       [5] 1 1 1 world0
     = Inr (Some (18446744073709551614,
                  empty_cacheInfo(0 := Ptr (fresh\<lparr>ptr := 65536, dirty := True\<rparr>)),
                  world0\<lparr>calls := [RcWrite 65536]\<rparr>))"
  using irods_error_status_item_count
    [of "empty_cacheInfo(0 := Ptr (fresh\<lparr>ptr := 65536, dirty := True\<rparr>))" 1
        "fresh\<lparr>ptr := 65536, dirty := True\<rparr>" "- 2" 1 write_error "[0]" 1 world0 "[0]"
        "fresh\<lparr>ptr := 65536, dirty := True\<rparr>" "world0\<lparr>calls := [RcWrite 65536]\<rparr>"]
    irods_error_status_item_count
    [of "empty_cacheInfo(0 := Ptr (fresh\<lparr>ptr := 65536, dirty := True\<rparr>))" 1
        "fresh\<lparr>ptr := 65536, dirty := True\<rparr>" "- 2" 1 write_error "[5]" 1 world0 "[5]"
        "fresh\<lparr>ptr := 65536, dirty := True\<rparr>" "world0\<lparr>calls := [RcWrite 65536]\<rparr>"]
  by (simp add: is_in_map_def slot_of_def empty_cacheInfo_def write_error_def isio_defs server_defs)

text \<open>The same file and server, one item of size \<open>2 ^ 64 - 1\<close>: the read fails with
  -2 and \<^verbatim>\<open>irodsfread\<close> returns the count 0.\<close>

theorem irodsfread_error_status_zero_items:
  "isioFileRead write_error (fresh\<lparr>ptr := 65536, dirty := True\<rparr>) [] (- 1 * 1) world0
     = Inr (- 2, [], fresh\<lparr>ptr := 65536, dirty := True\<rparr>, world0\<lparr>calls := [RcWrite 65536]\<rparr>)
   \<and> irodsfread write_error (empty_cacheInfo(0 := Ptr (fresh\<lparr>ptr := 65536, dirty := True\<rparr>)))
       [] (- 1) 1 1 world0
     = Inr (Some (0, [],
                  empty_cacheInfo(0 := Ptr (fresh\<lparr>ptr := 65536, dirty := True\<rparr>)),
                  world0\<lparr>calls := [RcWrite 65536]\<rparr>))"
  by (simp add: irodsfread_def is_in_map_def slot_of_def empty_cacheInfo_def write_error_def
      isio_defs server_defs)

end
